theory Spec2Isabelle
  imports Main
begin

section \<open>Terraform attribute values and diagnostics\<close>

text \<open>
  The plugin framework's \<^verbatim>\<open>types.String\<close>, \<^verbatim>\<open>types.Bool\<close> and \<^verbatim>\<open>types.Int64\<close> are
  three-state values: null, unknown, or a known value. A Go \<^verbatim>\<open>string\<close> and a \<^verbatim>\<open>[]byte\<close>
  are both byte sequences, here \<^typ>\<open>string\<close>, so \<^verbatim>\<open>string(b)\<close> is the identity.
  \<^verbatim>\<open>int\<close> and \<^verbatim>\<open>int64\<close> are \<^typ>\<open>int\<close>: the code only copies them.
\<close>

datatype 'a attr = AttrNull | AttrUnknown | AttrValue 'a

fun IsNull :: "'a attr \<Rightarrow> bool" where
  "IsNull AttrNull = True"
| "IsNull _ = False"

fun IsUnknown :: "'a attr \<Rightarrow> bool" where
  "IsUnknown AttrUnknown = True"
| "IsUnknown _ = False"

fun ValueString :: "string attr \<Rightarrow> string" where
  "ValueString (AttrValue s) = s"
| "ValueString _ = []"

fun ValueBool :: "bool attr \<Rightarrow> bool" where
  "ValueBool (AttrValue b) = b"
| "ValueBool _ = False"

fun ValueStringPointer :: "string attr \<Rightarrow> string option" where
  "ValueStringPointer AttrNull = None"
| "ValueStringPointer AttrUnknown = Some []"
| "ValueStringPointer (AttrValue s) = Some s"

datatype diagnostic = ErrorDiagnostic string string | WarningDiagnostic string string

fun is_error :: "diagnostic \<Rightarrow> bool" where
  "is_error (ErrorDiagnostic summary detail) = True"
| "is_error (WarningDiagnostic summary detail) = False"

definition HasError :: "diagnostic list \<Rightarrow> bool" where
  "HasError ds = list_ex is_error ds"

text \<open>\<^verbatim>\<open>%d\<close> of \<^verbatim>\<open>fmt.Sprintf\<close>: the decimal digits of an integer.\<close>

fun digits :: "nat \<Rightarrow> string" where
  "digits n = (if n < 10 then [char_of (48 + n)] else digits (n div 10) @ [char_of (48 + n mod 10)])"

definition Itoa :: "int \<Rightarrow> string" where
  "Itoa i = (if i < 0 then CHR ''-'' # digits (nat (- i)) else digits (nat i))"

section \<open>The resource's data model\<close>

record FunctionResourceModel =
  ProjectRef :: "string attr"
  Slug :: "string attr"
  EntrypointPath :: "string attr"
  SourceDir :: "string attr"
  Name :: "string attr"
  VerifyJwt :: "bool attr"
  ImportMapPath :: "string attr"
  Id :: "string attr"
  Status :: "string attr"
  Version :: "int attr"
  CreatedAt :: "int attr"
  UpdatedAt :: "int attr"

text \<open>
  \<^verbatim>\<open>FunctionDeployMetadata\<close>: a pointer field is an option. \<^verbatim>\<open>StaticPatterns\<close> is a
  slice that the provider never assigns.
\<close>

record FunctionDeployMetadata =
  md_EntrypointPath :: string
  md_ImportMapPath :: "string option"
  md_Name :: "string option"
  md_StaticPatterns :: "string list"
  md_VerifyJwt :: "bool option"

section \<open>JSON encoding of the metadata\<close>

text \<open>
  \<^verbatim>\<open>json.NewEncoder(w).Encode(v)\<close> writes the JSON object of the struct, its fields in
  declaration order under their \<^verbatim>\<open>json\<close> tags, followed by a newline. A field tagged
  \<^verbatim>\<open>omitempty\<close> is left out when it is a nil pointer or an empty slice. The model keeps
  the object as a tree; the byte rendering of strings is the standard library's.
\<close>

datatype json = JString string | JBool bool | JArray "json list" | JObject "(string \<times> json) list"

fun omitempty :: "string \<Rightarrow> 'a option \<Rightarrow> ('a \<Rightarrow> json) \<Rightarrow> (string \<times> json) list" where
  "omitempty key None enc = []"
| "omitempty key (Some v) enc = [(key, enc v)]"

definition Encode :: "FunctionDeployMetadata \<Rightarrow> json" where
  "Encode m = JObject
     ([(''entrypoint_path'', JString (md_EntrypointPath m))]
      @ omitempty ''import_map_path'' (md_ImportMapPath m) JString
      @ omitempty ''name'' (md_Name m) JString
      @ (if md_StaticPatterns m = [] then []
         else [(''static_patterns'', JArray (map JString (md_StaticPatterns m)))])
      @ omitempty ''verify_jwt'' (md_VerifyJwt m) JBool)"

section \<open>The multipart writer\<close>

text \<open>
  A multipart body is the sequence of its parts, in the order they were created. A part
  made by \<^verbatim>\<open>CreateFormField\<close> has a field name only; one made by \<^verbatim>\<open>CreateFormFile\<close>
  has a field name and a file name. Both names are parameters of the part's
  \<^verbatim>\<open>Content-Disposition\<close> header, and the writer puts them there through
  \<^verbatim>\<open>escapeQuotes\<close>: a backslash and a double quote get a backslash in front, a line
  feed becomes \<^verbatim>\<open>%0A\<close> and a carriage return \<^verbatim>\<open>%0D\<close>. A part records the two
  parameters as written. The writer's target is an in-memory buffer, whose
  writes do not fail, so the error returns of \<^verbatim>\<open>CreateFormField\<close>,
  \<^verbatim>\<open>CreateFormFile\<close>, \<^verbatim>\<open>Encode\<close> and \<^verbatim>\<open>Close\<close> are never taken.
\<close>

datatype payload = EncodedJSON json | RawBytes string

record part =
  fieldname :: string
  filename :: "string option"
  content :: payload

fun escapeQuotes :: "string \<Rightarrow> string" where
  "escapeQuotes [] = []"
| "escapeQuotes (c # cs) =
     (if c = CHR 0x5C then [CHR 0x5C, CHR 0x5C]
      else if c = CHR 0x22 then [CHR 0x5C, CHR 0x22]
      else if c = CHR 0x0A then ''%0A''
      else if c = CHR 0x0D then ''%0D''
      else [c]) @ escapeQuotes cs"

definition CreateFormField :: "string \<Rightarrow> payload \<Rightarrow> part list \<Rightarrow> part list" where
  "CreateFormField name c w =
     w @ [\<lparr>fieldname = escapeQuotes name, filename = None, content = c\<rparr>]"

definition CreateFormFile :: "string \<Rightarrow> string \<Rightarrow> payload \<Rightarrow> part list \<Rightarrow> part list" where
  "CreateFormFile name file c w =
     w @ [\<lparr>fieldname = escapeQuotes name, filename = Some (escapeQuotes file), content = c\<rparr>]"

definition FormDataContentType :: "string \<Rightarrow> string" where
  "FormDataContentType boundary = ''multipart/form-data; boundary='' @ boundary"

section \<open>The source directory\<close>

text \<open>
  What \<^verbatim>\<open>filepath.Walk\<close> can meet at a path. \<open>File\<close> is an entry for which
  \<^verbatim>\<open>info.IsDir()\<close> is false and that opens and reads to the given bytes; \<open>Dir\<close> is a
  directory with its entries in the order \<^verbatim>\<open>readDirNames\<close> returns them. The other
  four carry the error of the failing call: \<^verbatim>\<open>os.Lstat\<close> (\<open>Missing\<close>),
  \<^verbatim>\<open>readDirNames\<close> (\<open>Unlistable\<close>), \<^verbatim>\<open>os.Open\<close> (\<open>Unopenable\<close>) and
  \<^verbatim>\<open>io.Copy\<close> (\<open>Unreadable\<close>).
\<close>

datatype fsnode =
    File string
  | Dir "(string \<times> fsnode) list"
  | Missing string
  | Unlistable string
  | Unopenable string
  | Unreadable string

text \<open>
  \<^verbatim>\<open>filepath.ToSlash\<close> replaces the operating system's separator by a slash; where the
  separator is a slash it returns its argument.
\<close>

definition ToSlash :: "char \<Rightarrow> string \<Rightarrow> string" where
  "ToSlash sep p = (if sep = CHR ''/'' then p else map (\<lambda>c. if c = sep then CHR ''/'' else c) p)"

text \<open>
  A walked path is the root followed by the names of the entries descended into;
  \<^verbatim>\<open>filepath.Rel\<close> of the root and such a path is these names joined by the separator,
  and \<^verbatim>\<open>.\<close> for the root itself.
\<close>

fun Join :: "char \<Rightarrow> string list \<Rightarrow> string" where
  "Join sep [] = []"
| "Join sep [n] = n"
| "Join sep (n # ns) = n @ sep # Join sep ns"

definition Rel :: "char \<Rightarrow> string list \<Rightarrow> string" where
  "Rel sep names = (if names = [] then ''.'' else Join sep names)"

text \<open>The callback given to \<^verbatim>\<open>filepath.Walk\<close> by \<^verbatim>\<open>deployFunction\<close>.\<close>

fun walkFn :: "char \<Rightarrow> string list \<Rightarrow> fsnode \<Rightarrow> part list \<Rightarrow> string + part list" where
  "walkFn sep names (Missing err) w = Inl err"
| "walkFn sep names (Unlistable err) w = Inl err"
| "walkFn sep names (Dir es) w = Inr w"
| "walkFn sep names (Unopenable err) w = Inl (''failed to open file: '' @ err)"
| "walkFn sep names (Unreadable err) w = Inl (''failed to copy file content: '' @ err)"
| "walkFn sep names (File bytes) w =
     Inr (CreateFormFile ''file'' (ToSlash sep (Rel sep names)) (RawBytes bytes) w)"

text \<open>
  \<^verbatim>\<open>filepath.Walk\<close>: the callback is called on every entry, a directory before its
  entries, and the first error it returns ends the walk.
\<close>

fun walk :: "char \<Rightarrow> string list \<Rightarrow> fsnode \<Rightarrow> part list \<Rightarrow> string + part list"
  and walk_names :: "char \<Rightarrow> string list \<Rightarrow> (string \<times> fsnode) list \<Rightarrow> part list \<Rightarrow> string + part list"
where
  "walk sep names (Dir es) w =
     (case walkFn sep names (Dir es) w of
        Inl err \<Rightarrow> Inl err
      | Inr w' \<Rightarrow> walk_names sep names es w')"
| "walk sep names (File bytes) w = walkFn sep names (File bytes) w"
| "walk sep names (Missing err) w = walkFn sep names (Missing err) w"
| "walk sep names (Unlistable err) w = walkFn sep names (Unlistable err) w"
| "walk sep names (Unopenable err) w = walkFn sep names (Unopenable err) w"
| "walk sep names (Unreadable err) w = walkFn sep names (Unreadable err) w"
| "walk_names sep names [] w = Inr w"
| "walk_names sep names ((name, node) # es) w =
     (case walk sep (names @ [name]) node w of
        Inl err \<Rightarrow> Inl err
      | Inr w' \<Rightarrow> walk_names sep names es w')"

definition Walk :: "char \<Rightarrow> fsnode \<Rightarrow> part list \<Rightarrow> string + part list" where
  "Walk sep root w = walk sep [] root w"

section \<open>The API client\<close>

text \<open>
  The generated client is a collaborator outside the provider: each operation takes its
  arguments and returns either a transport error or a response. A response carries the
  status code, the raw body and, where the client parsed one, the typed JSON body.
  Only the fields the provider reads are kept.
\<close>

record DeployFunctionResponse =
  dr_Id :: string
  dr_Slug :: string
  dr_Name :: string
  dr_Status :: string
  dr_Version :: int
  dr_CreatedAt :: "int option"
  dr_UpdatedAt :: "int option"

record FunctionSlugResponse =
  fr_Id :: string
  fr_Slug :: string
  fr_Name :: string
  fr_Status :: string
  fr_Version :: int
  fr_CreatedAt :: int
  fr_UpdatedAt :: int
  fr_VerifyJwt :: "bool option"

record http_response =
  StatusCode :: int
  Body :: string

record V1DeployAFunctionResponse = http_response +
  JSON201 :: "DeployFunctionResponse option"

record V1GetAFunctionResponse = http_response +
  JSON200 :: "FunctionSlugResponse option"

record V1DeployAFunctionParams =
  params_Slug :: "string option"

record api_client =
  V1DeployAFunctionWithBodyWithResponse ::
    "string \<Rightarrow> V1DeployAFunctionParams \<Rightarrow> string \<Rightarrow> part list \<Rightarrow> string + V1DeployAFunctionResponse"
  V1GetAFunctionWithResponse :: "string \<Rightarrow> string \<Rightarrow> string + V1GetAFunctionResponse"
  V1DeleteAFunctionWithResponse :: "string \<Rightarrow> string \<Rightarrow> string + http_response"
  V1GetAFunctionBodyWithResponse :: "string \<Rightarrow> string \<Rightarrow> string + http_response"

text \<open>The requests an operation has issued, in order.\<close>

datatype api_call =
    V1DeployAFunction string V1DeployAFunctionParams string "part list"
  | V1GetAFunction string string
  | V1DeleteAFunction string string
  | V1GetAFunctionBody string string

text \<open>
  What \<^verbatim>\<open>deployFunction\<close> takes from its surroundings: the path separator of the
  operating system, the file tree found at a path, and the boundary the multipart writer
  drew.
\<close>

record os_env =
  Separator :: char
  Lstat :: "string \<Rightarrow> fsnode"
  Boundary :: string

section \<open>deployFunction, readFunction, deleteFunction\<close>

definition build_metadata :: "char \<Rightarrow> FunctionResourceModel \<Rightarrow> FunctionDeployMetadata" where
  "build_metadata sep data =
     (let metadata = \<lparr>md_EntrypointPath = ToSlash sep (ValueString (EntrypointPath data)),
                      md_ImportMapPath = None, md_Name = None, md_StaticPatterns = [],
                      md_VerifyJwt = None\<rparr>;
          metadata = (if \<not> IsNull (Name data) \<and> \<not> IsUnknown (Name data)
                      then metadata\<lparr>md_Name := Some (ValueString (Name data))\<rparr> else metadata);
          metadata = (if \<not> IsNull (VerifyJwt data) \<and> \<not> IsUnknown (VerifyJwt data)
                      then metadata\<lparr>md_VerifyJwt := Some (ValueBool (VerifyJwt data))\<rparr> else metadata);
          metadata = (if \<not> IsNull (ImportMapPath data) \<and> \<not> IsUnknown (ImportMapPath data)
                      then metadata\<lparr>md_ImportMapPath := Some (ToSlash sep (ValueString (ImportMapPath data)))\<rparr>
                      else metadata)
      in metadata)"

text \<open>The body of the request: the metadata field, then the walk of \<^verbatim>\<open>source_dir\<close>.\<close>

definition build_body :: "os_env \<Rightarrow> FunctionResourceModel \<Rightarrow> string + part list" where
  "build_body env data =
     (let w = CreateFormField ''metadata'' (EncodedJSON (Encode (build_metadata (Separator env) data))) [];
          sourceDir = ValueString (SourceDir data)
      in Walk (Separator env) (Lstat env sourceDir) w)"

definition client_error :: "string \<Rightarrow> diagnostic list" where
  "client_error msg = [ErrorDiagnostic ''Client Error'' msg]"

definition deployFunction ::
  "os_env \<Rightarrow> api_client \<Rightarrow> FunctionResourceModel
     \<Rightarrow> diagnostic list \<times> FunctionResourceModel \<times> api_call list" where
  "deployFunction env client data =
     (case build_body env data of
        Inl err \<Rightarrow>
          (client_error (''Unable to read source directory, got error: '' @ err), data, [])
      | Inr buf \<Rightarrow>
          (let params = \<lparr>params_Slug = ValueStringPointer (Slug data)\<rparr>;
               project = ValueString (ProjectRef data);
               ctype = FormDataContentType (Boundary env);
               calls = [V1DeployAFunction project params ctype buf]
           in case V1DeployAFunctionWithBodyWithResponse client project params ctype buf of
                Inl err \<Rightarrow>
                  (client_error (''Unable to deploy function, got error: '' @ err), data, calls)
              | Inr httpResp \<Rightarrow>
                  (case JSON201 httpResp of
                     None \<Rightarrow>
                       (client_error (''Unable to deploy function, got status ''
                          @ Itoa (StatusCode httpResp) @ '': '' @ Body httpResp), data, calls)
                   | Some result \<Rightarrow>
                       (let data = data\<lparr>Id := AttrValue (dr_Id result),
                                         Slug := AttrValue (dr_Slug result),
                                         Name := AttrValue (dr_Name result),
                                         Status := AttrValue (dr_Status result),
                                         Version := AttrValue (dr_Version result)\<rparr>;
                            data = (case dr_CreatedAt result of
                                      None \<Rightarrow> data
                                    | Some t \<Rightarrow> data\<lparr>CreatedAt := AttrValue t\<rparr>);
                            data = (case dr_UpdatedAt result of
                                      None \<Rightarrow> data
                                    | Some t \<Rightarrow> data\<lparr>UpdatedAt := AttrValue t\<rparr>)
                        in ([], data, calls)))))"

definition readFunction ::
  "api_client \<Rightarrow> FunctionResourceModel \<Rightarrow> diagnostic list \<times> FunctionResourceModel \<times> api_call list" where
  "readFunction client data =
     (let project = ValueString (ProjectRef data);
          slug = ValueString (Slug data);
          calls = [V1GetAFunction project slug]
      in case V1GetAFunctionWithResponse client project slug of
           Inl err \<Rightarrow> (client_error (''Unable to read function, got error: '' @ err), data, calls)
         | Inr httpResp \<Rightarrow>
             if StatusCode httpResp = 404 then ([], data, calls)
             else (case JSON200 httpResp of
                     None \<Rightarrow>
                       (client_error (''Unable to read function, got status ''
                          @ Itoa (StatusCode httpResp) @ '': '' @ Body httpResp), data, calls)
                   | Some result \<Rightarrow>
                       (let data = data\<lparr>Id := AttrValue (fr_Id result),
                                         Slug := AttrValue (fr_Slug result),
                                         Name := AttrValue (fr_Name result),
                                         Status := AttrValue (fr_Status result),
                                         Version := AttrValue (fr_Version result),
                                         CreatedAt := AttrValue (fr_CreatedAt result),
                                         UpdatedAt := AttrValue (fr_UpdatedAt result)\<rparr>;
                            data = (case fr_VerifyJwt result of
                                      None \<Rightarrow> data
                                    | Some b \<Rightarrow> data\<lparr>VerifyJwt := AttrValue b\<rparr>)
                        in ([], data, calls))))"

definition deleteFunction ::
  "api_client \<Rightarrow> FunctionResourceModel \<Rightarrow> diagnostic list \<times> api_call list" where
  "deleteFunction client data =
     (let project = ValueString (ProjectRef data);
          slug = ValueString (Slug data);
          calls = [V1DeleteAFunction project slug]
      in case V1DeleteAFunctionWithResponse client project slug of
           Inl err \<Rightarrow> (client_error (''Unable to delete function, got error: '' @ err), calls)
         | Inr httpResp \<Rightarrow>
             if StatusCode httpResp = 404 then ([], calls)
             else if StatusCode httpResp \<noteq> 200
             then (client_error (''Unable to delete function, got status ''
                     @ Itoa (StatusCode httpResp) @ '': '' @ Body httpResp), calls)
             else ([], calls))"

section \<open>The resource's handlers\<close>

text \<open>
  \<^verbatim>\<open>req.Plan.Get\<close>, \<^verbatim>\<open>req.State.Get\<close> and \<^verbatim>\<open>req.Config.Get\<close> decode the framework's
  value into the model and return diagnostics; the request is given as that pair. A
  handler's outcome is the diagnostics of its response, the model it gave to
  \<^verbatim>\<open>resp.State.Set\<close> (\<open>None\<close> when it did not call it) and the requests it issued.
  \<^verbatim>\<open>resp.State.Set\<close> of a model whose fields are those of the schema adds no diagnostic.
\<close>

type_synonym 'm tfsdk_data = "diagnostic list \<times> 'm"

record 'm response =
  Diagnostics :: "diagnostic list"
  State :: "'m option"
  Calls :: "api_call list"

definition Create ::
  "os_env \<Rightarrow> api_client \<Rightarrow> FunctionResourceModel tfsdk_data \<Rightarrow> FunctionResourceModel response" where
  "Create env client plan =
     (case plan of (diags, data) \<Rightarrow>
        if HasError diags then \<lparr>Diagnostics = diags, State = None, Calls = []\<rparr>
        else (case deployFunction env client data of (ds, data', calls) \<Rightarrow>
                if HasError (diags @ ds)
                then \<lparr>Diagnostics = diags @ ds, State = None, Calls = calls\<rparr>
                else \<lparr>Diagnostics = diags @ ds, State = Some data', Calls = calls\<rparr>))"

definition Read ::
  "api_client \<Rightarrow> FunctionResourceModel tfsdk_data \<Rightarrow> FunctionResourceModel response" where
  "Read client state =
     (case state of (diags, data) \<Rightarrow>
        if HasError diags then \<lparr>Diagnostics = diags, State = None, Calls = []\<rparr>
        else (case readFunction client data of (ds, data', calls) \<Rightarrow>
                if HasError (diags @ ds)
                then \<lparr>Diagnostics = diags @ ds, State = None, Calls = calls\<rparr>
                else \<lparr>Diagnostics = diags @ ds, State = Some data', Calls = calls\<rparr>))"

definition Update ::
  "os_env \<Rightarrow> api_client \<Rightarrow> FunctionResourceModel tfsdk_data \<Rightarrow> FunctionResourceModel response" where
  "Update env client plan =
     (case plan of (diags, data) \<Rightarrow>
        if HasError diags then \<lparr>Diagnostics = diags, State = None, Calls = []\<rparr>
        else (case deployFunction env client data of (ds, data', calls) \<Rightarrow>
                if HasError (diags @ ds)
                then \<lparr>Diagnostics = diags @ ds, State = None, Calls = calls\<rparr>
                else \<lparr>Diagnostics = diags @ ds, State = Some data', Calls = calls\<rparr>))"

definition Delete ::
  "api_client \<Rightarrow> FunctionResourceModel tfsdk_data \<Rightarrow> FunctionResourceModel response" where
  "Delete client state =
     (case state of (diags, data) \<Rightarrow>
        if HasError diags then \<lparr>Diagnostics = diags, State = None, Calls = []\<rparr>
        else (case deleteFunction client data of (ds, calls) \<Rightarrow>
                \<lparr>Diagnostics = diags @ ds, State = None, Calls = calls\<rparr>))"

section \<open>The function body data source\<close>

record FunctionBodyDataSourceModel =
  ds_ProjectRef :: "string attr"
  ds_Slug :: "string attr"
  ds_Body :: "string attr"

definition DataSourceRead ::
  "api_client \<Rightarrow> FunctionBodyDataSourceModel tfsdk_data \<Rightarrow> FunctionBodyDataSourceModel response" where
  "DataSourceRead client config =
     (case config of (diags, data) \<Rightarrow>
        if HasError diags then \<lparr>Diagnostics = diags, State = None, Calls = []\<rparr>
        else
          (let project = ValueString (ds_ProjectRef data);
               slug = ValueString (ds_Slug data);
               calls = [V1GetAFunctionBody project slug]
           in case V1GetAFunctionBodyWithResponse client project slug of
                Inl err \<Rightarrow>
                  \<lparr>Diagnostics = diags @ client_error (''Unable to read function body, got error: '' @ err),
                   State = None, Calls = calls\<rparr>
              | Inr httpResp \<Rightarrow>
                  if StatusCode httpResp \<noteq> 200
                  then \<lparr>Diagnostics = diags @ client_error (''Unable to read function body, got status ''
                          @ Itoa (StatusCode httpResp) @ '': '' @ Body httpResp),
                        State = None, Calls = calls\<rparr>
                  else \<lparr>Diagnostics = diags, State = Some (data\<lparr>ds_Body := AttrValue (Body httpResp)\<rparr>),
                        Calls = calls\<rparr>))"

section \<open>The schema of the resource\<close>

text \<open>
  Two declarations of \<^verbatim>\<open>Schema\<close> bear on what is deployed: the validator of
  \<^verbatim>\<open>slug\<close>, \<^verbatim>\<open>RegexMatches\<close> of the pattern \<^verbatim>\<open>^[A-Za-z][A-Za-z0-9_-]*$\<close>, and the
  default of \<^verbatim>\<open>verify_jwt\<close>, \<^verbatim>\<open>StaticBool(true)\<close>. The pattern is anchored at both
  ends, so a string matches it as a whole: a first byte of the first class, then any
  number of bytes of the second.
\<close>

definition in_range :: "char \<Rightarrow> char \<Rightarrow> char \<Rightarrow> bool" where
  "in_range lo hi c = ((of_char lo :: nat) \<le> of_char c \<and> (of_char c :: nat) \<le> of_char hi)"

definition slug_first :: "char \<Rightarrow> bool" where
  "slug_first c = (in_range CHR ''A'' CHR ''Z'' c \<or> in_range CHR ''a'' CHR ''z'' c)"

definition slug_rest :: "char \<Rightarrow> bool" where
  "slug_rest c = (in_range CHR ''A'' CHR ''Z'' c \<or> in_range CHR ''a'' CHR ''z'' c
                  \<or> in_range CHR ''0'' CHR ''9'' c \<or> c = CHR ''_'' \<or> c = CHR ''-'')"

fun slug_regexp :: "string \<Rightarrow> bool" where
  "slug_regexp [] = False"
| "slug_regexp (c # cs) = (slug_first c \<and> list_all slug_rest cs)"

text \<open>
  How the plugin framework reads these declarations. \<^verbatim>\<open>RegexMatches\<close> passes a null
  or unknown value and reports an error for a known string that does not match. A
  configuration is validated before it is planned, the default of an attribute replaces
  a null configured value in the plan, and the handler is called with the plan only when
  validation reported no error.
\<close>

definition RegexMatches :: "(string \<Rightarrow> bool) \<Rightarrow> string \<Rightarrow> string attr \<Rightarrow> diagnostic list" where
  "RegexMatches re message v =
     (case v of
        AttrValue s \<Rightarrow> if re s then [] else [ErrorDiagnostic ''Invalid Attribute Value Match'' message]
      | _ \<Rightarrow> [])"

definition slug_Validators :: "(string attr \<Rightarrow> diagnostic list) list" where
  "slug_Validators =
     [RegexMatches slug_regexp
        ''must start with a letter and contain only letters, numbers, underscores, and hyphens'']"

definition verify_jwt_Default :: "bool attr" where
  "verify_jwt_Default = AttrValue True"

definition ValidateConfig :: "FunctionResourceModel \<Rightarrow> diagnostic list" where
  "ValidateConfig config = concat (map (\<lambda>v. v (Slug config)) slug_Validators)"

definition PlanDefaults :: "FunctionResourceModel \<Rightarrow> FunctionResourceModel" where
  "PlanDefaults config =
     (if IsNull (VerifyJwt config) then config\<lparr>VerifyJwt := verify_jwt_Default\<rparr> else config)"

definition apply_config ::
  "(FunctionResourceModel tfsdk_data \<Rightarrow> FunctionResourceModel response)
     \<Rightarrow> FunctionResourceModel \<Rightarrow> FunctionResourceModel response" where
  "apply_config handler config =
     (let diags = ValidateConfig config
      in if HasError diags then \<lparr>Diagnostics = diags, State = None, Calls = []\<rparr>
         else handler ([], PlanDefaults config))"

section \<open>The files under a directory\<close>

text \<open>
  The files a request is to carry, said without the walk: \<open>reachable root names bytes\<close>
  holds when descending from \<open>root\<close> through the entries \<open>names\<close> ends at a file with
  content \<open>bytes\<close>. In a real directory no two entries share a name
  (\<open>distinct_names\<close>). \<open>files_of\<close> lists the files below a node with their paths.
\<close>

inductive reachable :: "fsnode \<Rightarrow> string list \<Rightarrow> string \<Rightarrow> bool" where
  reachable_file: "reachable (File bytes) [] bytes"
| reachable_entry: "(name, node) \<in> set es \<Longrightarrow> reachable node names bytes
     \<Longrightarrow> reachable (Dir es) (name # names) bytes"

fun distinct_names :: "fsnode \<Rightarrow> bool"
  and distinct_entries :: "(string \<times> fsnode) list \<Rightarrow> bool"
where
  "distinct_names (Dir es) = (distinct (map fst es) \<and> distinct_entries es)"
| "distinct_names (File bytes) = True"
| "distinct_names (Missing err) = True"
| "distinct_names (Unlistable err) = True"
| "distinct_names (Unopenable err) = True"
| "distinct_names (Unreadable err) = True"
| "distinct_entries [] = True"
| "distinct_entries ((name, node) # es) = (distinct_names node \<and> distinct_entries es)"

fun files_of :: "string list \<Rightarrow> fsnode \<Rightarrow> (string list \<times> string) list"
  and files_in :: "string list \<Rightarrow> (string \<times> fsnode) list \<Rightarrow> (string list \<times> string) list"
where
  "files_of names (File bytes) = [(names, bytes)]"
| "files_of names (Dir es) = files_in names es"
| "files_of names (Missing err) = []"
| "files_of names (Unlistable err) = []"
| "files_of names (Unopenable err) = []"
| "files_of names (Unreadable err) = []"
| "files_in names [] = []"
| "files_in names ((name, node) # es) = files_of (names @ [name]) node @ files_in names es"

text \<open>
  The path of a file relative to the root, with forward slashes: the names descended
  through, a slash between two of them, and a dot for the root itself. The name of a
  directory entry never holds the separator of its operating system (\<open>plain_names\<close>),
  which in Go is a slash, or a backslash on Windows. A path that holds none of the four
  characters the writer escapes is written as it is (\<open>needs_no_escape\<close>).
\<close>

fun slash_joined :: "string list \<Rightarrow> string" where
  "slash_joined [] = ''.''"
| "slash_joined [n] = n"
| "slash_joined (n # m # ns) = n @ ''/'' @ slash_joined (m # ns)"

fun plain_names :: "char \<Rightarrow> fsnode \<Rightarrow> bool"
  and plain_entries :: "char \<Rightarrow> (string \<times> fsnode) list \<Rightarrow> bool"
where
  "plain_names sep (Dir es) = plain_entries sep es"
| "plain_names sep (File bytes) = True"
| "plain_names sep (Missing err) = True"
| "plain_names sep (Unlistable err) = True"
| "plain_names sep (Unopenable err) = True"
| "plain_names sep (Unreadable err) = True"
| "plain_entries sep [] = True"
| "plain_entries sep ((name, node) # es) =
     (sep \<notin> set name \<and> plain_names sep node \<and> plain_entries sep es)"

definition needs_no_escape :: "string \<Rightarrow> bool" where
  "needs_no_escape p =
     (CHR 0x5C \<notin> set p \<and> CHR 0x22 \<notin> set p \<and> CHR 0x0A \<notin> set p \<and> CHR 0x0D \<notin> set p)"

definition file_part :: "char \<Rightarrow> string list \<times> string \<Rightarrow> part" where
  "file_part sep f = \<lparr>fieldname = ''file'',
                       filename = Some (escapeQuotes (ToSlash sep (Rel sep (fst f)))),
                       content = RawBytes (snd f)\<rparr>"

definition metadata_object :: "char \<Rightarrow> FunctionResourceModel \<Rightarrow> (string \<times> json) list" where
  "metadata_object sep data =
     (''entrypoint_path'', JString (ToSlash sep (ValueString (EntrypointPath data))))
     # omitempty ''import_map_path'' (md_ImportMapPath (build_metadata sep data)) JString
     @ omitempty ''name'' (md_Name (build_metadata sep data)) JString
     @ omitempty ''verify_jwt'' (md_VerifyJwt (build_metadata sep data)) JBool"

section \<open>A deployment to run the definitions on\<close>

text \<open>
  The function of the acceptance test, with a second file in a subdirectory: a source
  tree, a plan, the state after the deploy, and a client whose deploy answers 201 with a
  parsed body, whose get and delete answer 404 and whose body request answers 200.
\<close>

definition example_tree :: fsnode where
  "example_tree =
     Dir [(''index.ts'', File ''Deno.serve()''),
          (''lib'', Dir [(''util.ts'', File ''export {}'')])]"

definition example_env :: os_env where
  "example_env =
     \<lparr>Separator = CHR ''/'',
      Lstat = (\<lambda>path. if path = ''functions/hello-world'' then example_tree
                       else Missing ''lstat: no such file or directory''),
      Boundary = ''7d4a6d158c9''\<rparr>"

definition example_config :: FunctionResourceModel where
  "example_config =
     \<lparr>ProjectRef = AttrValue ''mayuaycdtijbctgqbycg'', Slug = AttrValue ''hello-world'',
      EntrypointPath = AttrValue ''index.ts'', SourceDir = AttrValue ''functions/hello-world'',
      Name = AttrNull, VerifyJwt = AttrNull, ImportMapPath = AttrNull,
      Id = AttrUnknown, Status = AttrUnknown, Version = AttrUnknown,
      CreatedAt = AttrUnknown, UpdatedAt = AttrUnknown\<rparr>"

definition example_plan :: FunctionResourceModel where
  "example_plan = example_config\<lparr>Name := AttrValue ''hello'', VerifyJwt := AttrValue False\<rparr>"

definition example_deployed :: DeployFunctionResponse where
  "example_deployed =
     \<lparr>dr_Id = ''func-uuid-1234'', dr_Slug = ''hello-world'', dr_Name = ''hello-world'',
      dr_Status = ''ACTIVE'', dr_Version = 1, dr_CreatedAt = Some 1704067200,
      dr_UpdatedAt = None\<rparr>"

definition example_client :: api_client where
  "example_client =
     \<lparr>V1DeployAFunctionWithBodyWithResponse =
        (\<lambda>project params ctype body.
           Inr \<lparr>StatusCode = 201, Body = ''{}'', JSON201 = Some example_deployed\<rparr>),
      V1GetAFunctionWithResponse =
        (\<lambda>project slug. Inr \<lparr>StatusCode = 404, Body = ''Function not found'', JSON200 = None\<rparr>),
      V1DeleteAFunctionWithResponse =
        (\<lambda>project slug. Inr \<lparr>StatusCode = 404, Body = ''Function not found''\<rparr>),
      V1GetAFunctionBodyWithResponse =
        (\<lambda>project slug. Inr \<lparr>StatusCode = 200, Body = ''Deno.serve()''\<rparr>)\<rparr>"

definition example_state :: FunctionResourceModel where
  "example_state =
     example_plan\<lparr>Id := AttrValue ''func-uuid-1234'', Name := AttrValue ''hello-world'',
                  Status := AttrValue ''ACTIVE'', Version := AttrValue 1,
                  CreatedAt := AttrValue 1704067200, UpdatedAt := AttrUnknown\<rparr>"

definition example_body :: "part list" where
  "example_body =
     [\<lparr>fieldname = ''metadata'', filename = None,
       content = EncodedJSON (JObject [(''entrypoint_path'', JString ''index.ts''),
                                       (''name'', JString ''hello''),
                                       (''verify_jwt'', JBool False)])\<rparr>,
      \<lparr>fieldname = ''file'', filename = Some ''index.ts'', content = RawBytes ''Deno.serve()''\<rparr>,
      \<lparr>fieldname = ''file'', filename = Some ''lib/util.ts'', content = RawBytes ''export {}''\<rparr>]"

definition example_data_source :: FunctionBodyDataSourceModel where
  "example_data_source =
     \<lparr>ds_ProjectRef = AttrValue ''mayuaycdtijbctgqbycg'', ds_Slug = AttrValue ''hello-world'',
      ds_Body = AttrNull\<rparr>"

definition missing_env :: os_env where
  "missing_env = example_env\<lparr>Lstat := (\<lambda>path. Missing ''lstat: no such file or directory'')\<rparr>"

definition example_call :: api_call where
  "example_call =
     V1DeployAFunction ''mayuaycdtijbctgqbycg'' \<lparr>params_Slug = Some ''hello-world''\<rparr>
       ''multipart/form-data; boundary=7d4a6d158c9'' example_body"

definition failed_decode :: "diagnostic list" where
  "failed_decode = [ErrorDiagnostic ''Value Conversion Error'' ''cannot decode the configuration'']"

text \<open>
  The same deployment on Windows, with a file three levels down and an entry point given
  with a backslash; and a source directory whose one file has a line feed in its name.
\<close>

definition windows_tree :: fsnode where
  "windows_tree =
     Dir [(''index.ts'', File ''Deno.serve()''),
          (''lib'', Dir [(''deep'', Dir [(''util.ts'', File ''export {}'')])])]"

definition windows_env :: os_env where
  "windows_env =
     \<lparr>Separator = CHR 0x5C,
      Lstat = (\<lambda>path. if path = ''functions'' @ [CHR 0x5C] @ ''hello-world'' then windows_tree
                       else Missing ''CreateFile: The system cannot find the file specified.''),
      Boundary = ''7d4a6d158c9''\<rparr>"

definition windows_plan :: FunctionResourceModel where
  "windows_plan =
     example_plan\<lparr>EntrypointPath := AttrValue (''src'' @ [CHR 0x5C] @ ''index.ts''),
                  SourceDir := AttrValue (''functions'' @ [CHR 0x5C] @ ''hello-world'')\<rparr>"

definition windows_body :: "part list" where
  "windows_body =
     [\<lparr>fieldname = ''metadata'', filename = None,
       content = EncodedJSON (JObject [(''entrypoint_path'', JString ''src/index.ts''),
                                       (''name'', JString ''hello''),
                                       (''verify_jwt'', JBool False)])\<rparr>,
      \<lparr>fieldname = ''file'', filename = Some ''index.ts'', content = RawBytes ''Deno.serve()''\<rparr>,
      \<lparr>fieldname = ''file'', filename = Some ''lib/deep/util.ts'',
       content = RawBytes ''export {}''\<rparr>]"

definition windows_call :: api_call where
  "windows_call =
     V1DeployAFunction ''mayuaycdtijbctgqbycg'' \<lparr>params_Slug = Some ''hello-world''\<rparr>
       ''multipart/form-data; boundary=7d4a6d158c9'' windows_body"

definition linefeed_name :: string where
  "linefeed_name = ''n'' @ [CHR 0x0A] @ ''l.ts''"

definition linefeed_tree :: fsnode where
  "linefeed_tree = Dir [(linefeed_name, File ''export {}'')]"

definition linefeed_env :: os_env where
  "linefeed_env = example_env\<lparr>Lstat := (\<lambda>path. linefeed_tree)\<rparr>"

definition linefeed_body :: "part list" where
  "linefeed_body =
     [\<lparr>fieldname = ''metadata'', filename = None,
       content = EncodedJSON (JObject [(''entrypoint_path'', JString ''index.ts''),
                                       (''name'', JString ''hello''),
                                       (''verify_jwt'', JBool False)])\<rparr>,
      \<lparr>fieldname = ''file'', filename = Some ''n%0Al.ts'', content = RawBytes ''export {}''\<rparr>]"

definition linefeed_call :: api_call where
  "linefeed_call =
     V1DeployAFunction ''mayuaycdtijbctgqbycg'' \<lparr>params_Slug = Some ''hello-world''\<rparr>
       ''multipart/form-data; boundary=7d4a6d158c9'' linefeed_body"

definition default_body :: "part list" where
  "default_body =
     [\<lparr>fieldname = ''metadata'', filename = None,
       content = EncodedJSON (JObject [(''entrypoint_path'', JString ''index.ts''),
                                       (''verify_jwt'', JBool True)])\<rparr>,
      \<lparr>fieldname = ''file'', filename = Some ''index.ts'', content = RawBytes ''Deno.serve()''\<rparr>,
      \<lparr>fieldname = ''file'', filename = Some ''lib/util.ts'', content = RawBytes ''export {}''\<rparr>]"

definition bad_slug_config :: FunctionResourceModel where
  "bad_slug_config = example_config\<lparr>Slug := AttrValue ''1-hello world''\<rparr>"

section \<open>Facts about the definitions\<close>

lemma HasError_append: "HasError (xs @ ys) = (HasError xs \<or> HasError ys)"
  by (simp add: HasError_def)

lemma HasError_Nil: "\<not> HasError []"
  by (simp add: HasError_def)

lemma HasError_client_error: "HasError (client_error msg)"
  by (simp add: HasError_def client_error_def)

lemma deployFunction_success:
  assumes "build_body env data = Inr buf"
    and "V1DeployAFunctionWithBodyWithResponse client (ValueString (ProjectRef data))
           \<lparr>params_Slug = ValueStringPointer (Slug data)\<rparr> (FormDataContentType (Boundary env)) buf
         = Inr httpResp"
    and "JSON201 httpResp = Some result"
  shows "deployFunction env client data =
     ([], data\<lparr>Id := AttrValue (dr_Id result), Slug := AttrValue (dr_Slug result),
              Name := AttrValue (dr_Name result), Status := AttrValue (dr_Status result),
              Version := AttrValue (dr_Version result),
              CreatedAt := (case dr_CreatedAt result of None \<Rightarrow> CreatedAt data | Some t \<Rightarrow> AttrValue t),
              UpdatedAt := (case dr_UpdatedAt result of None \<Rightarrow> UpdatedAt data | Some t \<Rightarrow> AttrValue t)\<rparr>,
      [V1DeployAFunction (ValueString (ProjectRef data)) \<lparr>params_Slug = ValueStringPointer (Slug data)\<rparr>
         (FormDataContentType (Boundary env)) buf])"
  using assms by (simp add: deployFunction_def Let_def split: option.splits)

lemma readFunction_404:
  assumes "V1GetAFunctionWithResponse client (ValueString (ProjectRef data)) (ValueString (Slug data)) = Inr r"
    and "StatusCode r = 404"
  shows "readFunction client data
         = ([], data, [V1GetAFunction (ValueString (ProjectRef data)) (ValueString (Slug data))])"
  using assms by (simp add: readFunction_def Let_def)

lemma deleteFunction_404:
  assumes "V1DeleteAFunctionWithResponse client (ValueString (ProjectRef data)) (ValueString (Slug data)) = Inr r"
    and "StatusCode r = 404"
  shows "deleteFunction client data
         = ([], [V1DeleteAFunction (ValueString (ProjectRef data)) (ValueString (Slug data))])"
  using assms by (simp add: deleteFunction_def Let_def)

lemma deployFunction_calls:
  "snd (snd (deployFunction env client data)) = []
   \<or> (\<exists>project params ctype body.
         snd (snd (deployFunction env client data)) = [V1DeployAFunction project params ctype body])"
  by (simp add: deployFunction_def Let_def split: sum.splits option.splits)

lemma readFunction_calls:
  "snd (snd (readFunction client data))
   = [V1GetAFunction (ValueString (ProjectRef data)) (ValueString (Slug data))]"
  by (simp add: readFunction_def Let_def split: sum.splits option.splits)

lemma deleteFunction_calls:
  "snd (deleteFunction client data)
   = [V1DeleteAFunction (ValueString (ProjectRef data)) (ValueString (Slug data))]"
  by (simp add: deleteFunction_def Let_def split: sum.splits)

lemma handler_calls:
  "c \<in> set (Calls (Create env client (diags, data)))
     \<Longrightarrow> c \<in> set (snd (snd (deployFunction env client data)))"
  "c \<in> set (Calls (Update env client (diags, data)))
     \<Longrightarrow> c \<in> set (snd (snd (deployFunction env client data)))"
  by (auto simp: Create_def Update_def split: prod.splits if_splits)

lemma deploy_call_body:
  assumes "V1DeployAFunction project params ctype body \<in> set (snd (snd (deployFunction env client data)))"
  shows "build_body env data = Inr body"
  using assms by (auto simp: deployFunction_def Let_def split: sum.splits option.splits)

lemma deploy_call_params:
  assumes "V1DeployAFunction project params ctype body \<in> set (snd (snd (deployFunction env client data)))"
  shows "params_Slug params = ValueStringPointer (Slug data)"
  using assms by (auto simp: deployFunction_def Let_def split: sum.splits option.splits)

subsection \<open>The walk lists the files below the root\<close>

lemma walk_appends:
  "walk sep names node w = Inr w' \<Longrightarrow> w' = w @ map (file_part sep) (files_of names node)"
  "walk_names sep names es w = Inr w' \<Longrightarrow> w' = w @ map (file_part sep) (files_in names es)"
proof (induction sep names node w and sep names es w arbitrary: w' and w' rule: walk_walk_names.induct)
  case (1 sep names es w)
  then show ?case by simp
next
  case (2 sep names bytes w)
  then show ?case by (auto simp: CreateFormFile_def file_part_def)
next
  case (8 sep names name node es w)
  from "8.prems" obtain w1 where w1: "walk sep (names @ [name]) node w = Inr w1"
    and rest: "walk_names sep names es w1 = Inr w'"
    by (auto split: sum.splits)
  from "8.IH"(1) [OF w1] have "w1 = w @ map (file_part sep) (files_of (names @ [name]) node)" .
  moreover from "8.IH"(2) [OF w1 rest] have "w' = w1 @ map (file_part sep) (files_in names es)" .
  ultimately show ?case by simp
qed simp_all

lemma files_reachable:
  "(ns, bytes) \<in> set (files_of names node) \<longleftrightarrow> (\<exists>rest. ns = names @ rest \<and> reachable node rest bytes)"
  "(ns, bytes) \<in> set (files_in names es) \<longleftrightarrow>
     (\<exists>name node rest. (name, node) \<in> set es \<and> ns = names @ name # rest \<and> reachable node rest bytes)"
proof (induction names node and names es rule: files_of_files_in.induct)
  case (1 names b)
  show ?case by (auto elim: reachable.cases intro: reachable.intros)
next
  case (2 names es)
  show ?case
  proof
    assume "(ns, bytes) \<in> set (files_of names (Dir es))"
    with 2 obtain name node rest where "(name, node) \<in> set es" "ns = names @ name # rest"
      "reachable node rest bytes"
      by auto
    then show "\<exists>rest. ns = names @ rest \<and> reachable (Dir es) rest bytes"
      by (auto intro: reachable.intros)
  next
    assume "\<exists>rest. ns = names @ rest \<and> reachable (Dir es) rest bytes"
    then obtain rest where r: "ns = names @ rest" "reachable (Dir es) rest bytes" by blast
    from r(2) obtain name node rest' where "(name, node) \<in> set es" "rest = name # rest'"
      "reachable node rest' bytes"
      by (auto elim: reachable.cases)
    with r(1) 2 show "(ns, bytes) \<in> set (files_of names (Dir es))" by auto
  qed
next
  case (8 names name node es)
  then show ?case by (auto; force)
qed (auto elim: reachable.cases)

lemma files_prefix:
  "(ns, bytes) \<in> set (files_of names node) \<Longrightarrow> \<exists>rest. ns = names @ rest"
  "(ns, bytes) \<in> set (files_in names es)
     \<Longrightarrow> \<exists>name rest. name \<in> fst ` set es \<and> ns = names @ name # rest"
  using files_reachable(1) [of ns bytes names node] files_reachable(2) [of ns bytes names es]
  by force+

lemma files_distinct:
  "distinct_names node \<Longrightarrow> distinct (map fst (files_of names node))"
  "distinct (map fst es) \<Longrightarrow> distinct_entries es \<Longrightarrow> distinct (map fst (files_in names es))"
proof (induction names node and names es rule: files_of_files_in.induct)
  case (8 names name node es)
  have disj: "fst ` set (files_of (names @ [name]) node) \<inter> fst ` set (files_in names es) = {}"
  proof (rule ccontr)
    assume "\<not> ?thesis"
    then obtain ns b1 b2 where a: "(ns, b1) \<in> set (files_of (names @ [name]) node)"
      and b: "(ns, b2) \<in> set (files_in names es)"
      by force
    from files_prefix(1) [OF a] obtain r1 where r1: "ns = (names @ [name]) @ r1" by blast
    from files_prefix(2) [OF b] obtain n2 r2 where r2: "n2 \<in> fst ` set es" "ns = names @ n2 # r2"
      by blast
    from r1 r2(2) have "n2 = name" by simp
    with r2(1) "8.prems"(1) show False by simp
  qed
  from 8 disj show ?case by simp
qed simp_all

subsection \<open>The metadata field\<close>

lemma map_of_omitempty:
  "map_of (omitempty key v enc) k = (if k = key then map_option enc v else None)"
  by (cases v) simp_all

lemma build_metadata_fields:
  "md_EntrypointPath (build_metadata sep data) = ToSlash sep (ValueString (EntrypointPath data))"
  "md_Name (build_metadata sep data) = (case Name data of AttrValue n \<Rightarrow> Some n | _ \<Rightarrow> None)"
  "md_VerifyJwt (build_metadata sep data) = (case VerifyJwt data of AttrValue b \<Rightarrow> Some b | _ \<Rightarrow> None)"
  "md_ImportMapPath (build_metadata sep data) =
     (case ImportMapPath data of AttrValue p \<Rightarrow> Some (ToSlash sep p) | _ \<Rightarrow> None)"
  "md_StaticPatterns (build_metadata sep data) = []"
  by (simp_all add: build_metadata_def Let_def split: attr.splits)

lemma Encode_build_metadata:
  "Encode (build_metadata sep data) = JObject (metadata_object sep data)"
  by (simp add: Encode_def metadata_object_def build_metadata_fields)

lemma metadata_object_lookup:
  "map_of (metadata_object sep data) ''entrypoint_path''
     = Some (JString (ToSlash sep (ValueString (EntrypointPath data))))"
  "map_of (metadata_object sep data) ''name''
     = (case Name data of AttrValue n \<Rightarrow> Some (JString n) | _ \<Rightarrow> None)"
  "map_of (metadata_object sep data) ''verify_jwt''
     = (case VerifyJwt data of AttrValue b \<Rightarrow> Some (JBool b) | _ \<Rightarrow> None)"
  "map_of (metadata_object sep data) ''import_map_path''
     = (case ImportMapPath data of AttrValue p \<Rightarrow> Some (JString (ToSlash sep p)) | _ \<Rightarrow> None)"
  by (simp_all add: metadata_object_def build_metadata_fields map_add_def map_of_omitempty
        split: attr.splits)

lemma metadata_object_keys:
  "distinct (map fst (metadata_object sep data))"
  "fst ` set (metadata_object sep data)
     \<subseteq> {''entrypoint_path'', ''name'', ''verify_jwt'', ''import_map_path''}"
  by (auto simp: metadata_object_def build_metadata_fields split: attr.splits)

lemma build_body_parts:
  assumes "build_body env data = Inr body"
  shows "body = \<lparr>fieldname = ''metadata'', filename = None,
                  content = EncodedJSON (JObject (metadata_object (Separator env) data))\<rparr>
           # map (file_part (Separator env)) (files_of [] (Lstat env (ValueString (SourceDir data))))"
proof -
  let ?w = "[\<lparr>fieldname = ''metadata'', filename = None,
               content = EncodedJSON (JObject (metadata_object (Separator env) data))\<rparr>]"
  from assms have "walk (Separator env) [] (Lstat env (ValueString (SourceDir data))) ?w = Inr body"
    by (simp add: build_body_def Walk_def Let_def CreateFormField_def Encode_build_metadata)
  from walk_appends(1) [OF this] show ?thesis by simp
qed

subsection \<open>Validation and planning\<close>

lemma ValidateConfig_slug:
  "Slug config = AttrValue s \<Longrightarrow> HasError (ValidateConfig config) \<longleftrightarrow> \<not> slug_regexp s"
  by (simp add: ValidateConfig_def slug_Validators_def RegexMatches_def HasError_def)

lemma apply_config_calls:
  assumes "c \<in> set (Calls (apply_config (Create env client) config))
           \<or> c \<in> set (Calls (apply_config (Update env client) config))"
  shows "\<not> HasError (ValidateConfig config)
         \<and> c \<in> set (snd (snd (deployFunction env client (PlanDefaults config))))"
  using assms handler_calls [of c env client "[]" "PlanDefaults config"]
  by (auto simp: apply_config_def Let_def split: if_splits)

subsection \<open>The example deployment\<close>

lemmas example_defs =
  example_env_def example_plan_def example_config_def example_tree_def example_body_def
  example_client_def example_deployed_def example_state_def example_call_def
  example_data_source_def missing_env_def failed_decode_def

lemma example_build_body: "build_body example_env example_plan = Inr example_body"
  by (simp add: build_body_def example_defs Walk_def CreateFormField_def CreateFormFile_def
        Encode_def build_metadata_def ToSlash_def Rel_def)

lemma example_deployFunction:
  "deployFunction example_env example_client example_plan = ([], example_state, [example_call])"
  using deployFunction_success [of example_env example_plan example_body example_client
      "\<lparr>StatusCode = 201, Body = ''{}'', JSON201 = Some example_deployed\<rparr>" example_deployed]
    example_build_body
  by (simp add: example_defs FormDataContentType_def)

lemma missing_deployFunction:
  "deployFunction missing_env example_client example_plan
   = (client_error ''Unable to read source directory, got error: lstat: no such file or directory'',
      example_plan, [])"
  by (simp add: deployFunction_def build_body_def Walk_def Let_def example_defs)

lemma example_slug: "slug_regexp ''hello-world''"
  by (simp add: slug_first_def slug_rest_def in_range_def)

lemma example_apply_config:
  "Calls (apply_config (Create example_env example_client) example_config)
   = [V1DeployAFunction ''mayuaycdtijbctgqbycg'' \<lparr>params_Slug = Some ''hello-world''\<rparr>
        ''multipart/form-data; boundary=7d4a6d158c9''
        [\<lparr>fieldname = ''metadata'', filename = None,
          content = EncodedJSON (JObject [(''entrypoint_path'', JString ''index.ts''),
                                          (''verify_jwt'', JBool True)])\<rparr>,
         \<lparr>fieldname = ''file'', filename = Some ''index.ts'', content = RawBytes ''Deno.serve()''\<rparr>,
         \<lparr>fieldname = ''file'', filename = Some ''lib/util.ts'', content = RawBytes ''export {}''\<rparr>]]"
proof -
  have v: "\<not> HasError (ValidateConfig example_config)"
    using example_slug by (simp add: ValidateConfig_slug example_config_def)
  have "build_body example_env (PlanDefaults example_config) =
     Inr [\<lparr>fieldname = ''metadata'', filename = None,
          content = EncodedJSON (JObject [(''entrypoint_path'', JString ''index.ts''),
                                          (''verify_jwt'', JBool True)])\<rparr>,
         \<lparr>fieldname = ''file'', filename = Some ''index.ts'', content = RawBytes ''Deno.serve()''\<rparr>,
         \<lparr>fieldname = ''file'', filename = Some ''lib/util.ts'', content = RawBytes ''export {}''\<rparr>]"
    by (simp add: build_body_def example_defs Walk_def CreateFormField_def CreateFormFile_def
        Encode_def build_metadata_def ToSlash_def Rel_def PlanDefaults_def verify_jwt_Default_def)
  from deployFunction_success [OF this, of example_client
      "\<lparr>StatusCode = 201, Body = ''{}'', JSON201 = Some example_deployed\<rparr>" example_deployed] v
  show ?thesis
    by (simp add: apply_config_def Create_def HasError_Nil example_defs FormDataContentType_def
        PlanDefaults_def)
qed

subsection \<open>Relative paths with forward slashes\<close>

lemma Join_slash: "ns \<noteq> [] \<Longrightarrow> Join CHR ''/'' ns = slash_joined ns"
  by (induction ns rule: slash_joined.induct) simp_all

lemma ToSlash_Join:
  assumes "\<forall>n\<in>set ns. sep \<notin> set n" and "ns \<noteq> []"
  shows "ToSlash sep (Join sep ns) = slash_joined ns"
proof (cases "sep = CHR ''/''")
  case True
  with assms(2) show ?thesis by (simp add: ToSlash_def Join_slash)
next
  case False
  let ?f = "\<lambda>c. if c = sep then CHR ''/'' else c"
  have keep: "map ?f n = n" if "sep \<notin> set n" for n
    using that by (induction n) auto
  from assms have "map ?f (Join sep ns) = slash_joined ns"
  proof (induction ns rule: slash_joined.induct)
    case 1
    then show ?case by simp
  next
    case (2 n)
    then show ?case by (simp add: keep)
  next
    case (3 n m ns)
    then show ?case by (simp add: keep)
  qed
  with False show ?thesis by (simp add: ToSlash_def)
qed

lemma ToSlash_Rel:
  assumes "sep = CHR ''/'' \<or> sep = CHR 0x5C" and "\<forall>n\<in>set ns. sep \<notin> set n"
  shows "ToSlash sep (Rel sep ns) = slash_joined ns"
proof (cases "ns = []")
  case True
  with assms(1) show ?thesis by (auto simp: ToSlash_def Rel_def)
next
  case False
  with ToSlash_Join [OF assms(2)] show ?thesis by (simp add: Rel_def)
qed

lemma files_plain:
  "plain_names sep node \<Longrightarrow> \<forall>n\<in>set names. sep \<notin> set n
     \<Longrightarrow> (ns, bytes) \<in> set (files_of names node) \<Longrightarrow> \<forall>n\<in>set ns. sep \<notin> set n"
  "plain_entries sep es \<Longrightarrow> \<forall>n\<in>set names. sep \<notin> set n
     \<Longrightarrow> (ns, bytes) \<in> set (files_in names es) \<Longrightarrow> \<forall>n\<in>set ns. sep \<notin> set n"
proof (induction names node and names es rule: files_of_files_in.induct)
  case (8 names name node es)
  from "8.prems"(3) consider "(ns, bytes) \<in> set (files_of (names @ [name]) node)"
    | "(ns, bytes) \<in> set (files_in names es)"
    by auto
  then show ?case
  proof cases
    case 1
    from "8.prems"(1,2) have "plain_names sep node" "\<forall>n\<in>set (names @ [name]). sep \<notin> set n"
      by auto
    from "8.IH"(1) [OF this 1] show ?thesis .
  next
    case 2
    from "8.prems"(1) have "plain_entries sep es" by simp
    from "8.IH"(2) [OF this "8.prems"(2) 2] show ?thesis .
  qed
qed simp_all

lemma escapeQuotes_plain: "needs_no_escape p \<Longrightarrow> escapeQuotes p = p"
  by (induction p) (auto simp: needs_no_escape_def)

lemma file_part_plain:
  assumes "sep = CHR ''/'' \<or> sep = CHR 0x5C" and "plain_names sep root"
  shows "map (file_part sep) (files_of [] root)
         = map (\<lambda>(names, bytes). \<lparr>fieldname = ''file'',
                  filename = Some (escapeQuotes (slash_joined names)),
                  content = RawBytes bytes\<rparr>) (files_of [] root)"
proof (rule map_cong [OF refl])
  fix f assume f: "f \<in> set (files_of [] root)"
  obtain ns bytes where nb: "f = (ns, bytes)" by (cases f)
  from files_plain(1) [OF assms(2), of "[]" ns bytes] f nb have "\<forall>n\<in>set ns. sep \<notin> set n"
    by simp
  from ToSlash_Rel [OF assms(1) this] nb
  show "file_part sep f = (case f of (names, bytes) \<Rightarrow> \<lparr>fieldname = ''file'',
                  filename = Some (escapeQuotes (slash_joined names)),
                  content = RawBytes bytes\<rparr>)"
    by (simp add: file_part_def)
qed

lemma windows_deployFunction:
  "deployFunction windows_env example_client windows_plan
   = ([], windows_plan\<lparr>Id := AttrValue ''func-uuid-1234'', Slug := AttrValue ''hello-world'',
                        Name := AttrValue ''hello-world'', Status := AttrValue ''ACTIVE'',
                        Version := AttrValue 1, CreatedAt := AttrValue 1704067200\<rparr>,
      [windows_call])"
proof -
  have b: "build_body windows_env windows_plan = Inr windows_body"
    by (simp add: build_body_def windows_env_def windows_plan_def windows_tree_def windows_body_def
          example_defs Walk_def CreateFormField_def CreateFormFile_def Encode_def build_metadata_def
          ToSlash_def Rel_def)
  from deployFunction_success [OF b, of example_client
      "\<lparr>StatusCode = 201, Body = ''{}'', JSON201 = Some example_deployed\<rparr>" example_deployed]
  show ?thesis
    by (simp add: windows_env_def windows_plan_def windows_call_def example_defs
          FormDataContentType_def)
qed

lemma linefeed_deployFunction:
  "snd (snd (deployFunction linefeed_env example_client example_plan)) = [linefeed_call]"
proof -
  have b: "build_body linefeed_env example_plan = Inr linefeed_body"
    by (simp add: build_body_def linefeed_env_def linefeed_tree_def linefeed_name_def
          linefeed_body_def example_defs Walk_def CreateFormField_def CreateFormFile_def
          Encode_def build_metadata_def ToSlash_def Rel_def)
  from deployFunction_success [OF b, of example_client
      "\<lparr>StatusCode = 201, Body = ''{}'', JSON201 = Some example_deployed\<rparr>" example_deployed]
  show ?thesis
    by (simp add: linefeed_env_def linefeed_call_def example_defs FormDataContentType_def)
qed

section \<open>The claims\<close>

text \<open>
  Claim C1, as amended. The body of every deploy request issued by Create or Update is
  the form field \<^verbatim>\<open>metadata\<close> first, holding the JSON object of the metadata
  (\<^verbatim>\<open>entrypoint_path\<close> always; \<^verbatim>\<open>name\<close>, \<^verbatim>\<open>verify_jwt\<close> and \<^verbatim>\<open>import_map_path\<close>
  exactly when the planned value is known, and no other key), followed by parts named
  \<^verbatim>\<open>file\<close>, one for each file reachable under the source directory: its content is
  the file's bytes, and its file name is the path relative to the source directory with
  forward slashes as the multipart writer escapes it, which is the path itself when it
  holds no backslash, double quote, line feed or carriage return.
\<close>

theorem deploy_request_body:
  assumes "V1DeployAFunction project params ctype body \<in> set (Calls (Create env client (diags, data)))
           \<or> V1DeployAFunction project params ctype body \<in> set (Calls (Update env client (diags, data)))"
    and "Separator env = CHR ''/'' \<or> Separator env = CHR 0x5C"
    and "plain_names (Separator env) (Lstat env (ValueString (SourceDir data)))"
  shows "\<exists>obj files.
           body = \<lparr>fieldname = ''metadata'', filename = None, content = EncodedJSON (JObject obj)\<rparr>
                  # map (\<lambda>(names, bytes). \<lparr>fieldname = ''file'',
                           filename = Some (escapeQuotes (slash_joined names)),
                           content = RawBytes bytes\<rparr>) files
         \<and> map_of obj ''entrypoint_path''
             = Some (JString (ToSlash (Separator env) (ValueString (EntrypointPath data))))
         \<and> map_of obj ''name'' = (case Name data of AttrValue n \<Rightarrow> Some (JString n) | _ \<Rightarrow> None)
         \<and> map_of obj ''verify_jwt'' = (case VerifyJwt data of AttrValue b \<Rightarrow> Some (JBool b) | _ \<Rightarrow> None)
         \<and> map_of obj ''import_map_path''
             = (case ImportMapPath data of
                  AttrValue p \<Rightarrow> Some (JString (ToSlash (Separator env) p)) | _ \<Rightarrow> None)
         \<and> distinct (map fst obj)
         \<and> fst ` set obj \<subseteq> {''entrypoint_path'', ''name'', ''verify_jwt'', ''import_map_path''}
         \<and> (\<forall>names bytes. (names, bytes) \<in> set files
               \<longleftrightarrow> reachable (Lstat env (ValueString (SourceDir data))) names bytes)
         \<and> (distinct_names (Lstat env (ValueString (SourceDir data))) \<longrightarrow> distinct (map fst files))
         \<and> (\<forall>names bytes. (names, bytes) \<in> set files \<and> needs_no_escape (slash_joined names)
               \<longrightarrow> escapeQuotes (slash_joined names) = slash_joined names)"
proof -
  let ?root = "Lstat env (ValueString (SourceDir data))"
  let ?obj = "metadata_object (Separator env) data"
  let ?files = "files_of [] ?root"
  from assms(1) have sent: "V1DeployAFunction project params ctype body
      \<in> set (snd (snd (deployFunction env client data)))"
    using handler_calls by blast
  have b: "body = \<lparr>fieldname = ''metadata'', filename = None, content = EncodedJSON (JObject ?obj)\<rparr>
                  # map (\<lambda>(names, bytes). \<lparr>fieldname = ''file'',
                           filename = Some (escapeQuotes (slash_joined names)),
                           content = RawBytes bytes\<rparr>) ?files"
    using build_body_parts [OF deploy_call_body [OF sent]]
    by (simp only: file_part_plain [OF assms(2,3)])
  have r: "\<forall>names bytes. (names, bytes) \<in> set ?files \<longleftrightarrow> reachable ?root names bytes"
    by (simp add: files_reachable(1))
  have d: "distinct_names ?root \<longrightarrow> distinct (map fst ?files)"
    by (simp add: files_distinct(1))
  have e: "\<forall>names bytes. (names, bytes) \<in> set ?files \<and> needs_no_escape (slash_joined names)
               \<longrightarrow> escapeQuotes (slash_joined names) = slash_joined names"
    by (simp add: escapeQuotes_plain)
  show ?thesis
    apply (rule exI [of _ ?obj])
    apply (rule exI [of _ ?files])
    using b r d e metadata_object_lookup [of "Separator env" data]
      metadata_object_keys [of "Separator env" data]
    apply (intro conjI)
    apply assumption+
    done
qed

theorem deploy_request_body_witness:
  "windows_call \<in> set (Calls (Create windows_env example_client ([], windows_plan)))
   \<and> windows_call \<in> set (Calls (Update windows_env example_client ([], windows_plan)))
   \<and> plain_names CHR 0x5C windows_tree
   \<and> (\<exists>obj files.
         windows_body
           = \<lparr>fieldname = ''metadata'', filename = None, content = EncodedJSON (JObject obj)\<rparr>
             # map (\<lambda>(names, bytes). \<lparr>fieldname = ''file'',
                      filename = Some (escapeQuotes (slash_joined names)),
                      content = RawBytes bytes\<rparr>) files
       \<and> map_of obj ''entrypoint_path'' = Some (JString ''src/index.ts'')
       \<and> map_of obj ''name'' = Some (JString ''hello'')
       \<and> map_of obj ''verify_jwt'' = Some (JBool False)
       \<and> map_of obj ''import_map_path'' = None
       \<and> (\<forall>names bytes. (names, bytes) \<in> set files \<longleftrightarrow> reachable windows_tree names bytes)
       \<and> distinct (map fst files))
   \<and> map filename windows_body = [None, Some ''index.ts'', Some ''lib/deep/util.ts'']
   \<and> reachable windows_tree [''lib'', ''deep'', ''util.ts''] ''export {}''"
proof -
  have sent: "windows_call \<in> set (Calls (Create windows_env example_client ([], windows_plan)))"
    by (simp add: Create_def HasError_Nil windows_deployFunction)
  have sent': "windows_call \<in> set (Calls (Update windows_env example_client ([], windows_plan)))"
    by (simp add: Update_def HasError_Nil windows_deployFunction)
  then have h: "V1DeployAFunction ''mayuaycdtijbctgqbycg'' \<lparr>params_Slug = Some ''hello-world''\<rparr>
        ''multipart/form-data; boundary=7d4a6d158c9'' windows_body
      \<in> set (Calls (Create windows_env example_client ([], windows_plan)))
    \<or> V1DeployAFunction ''mayuaycdtijbctgqbycg'' \<lparr>params_Slug = Some ''hello-world''\<rparr>
        ''multipart/form-data; boundary=7d4a6d158c9'' windows_body
      \<in> set (Calls (Update windows_env example_client ([], windows_plan)))"
    by (simp add: windows_call_def)
  have e: "Separator windows_env = CHR 0x5C"
    "Lstat windows_env (ValueString (SourceDir windows_plan)) = windows_tree"
    "ValueString (EntrypointPath windows_plan) = ''src'' @ [CHR 0x5C] @ ''index.ts''"
    "Name windows_plan = AttrValue ''hello''"
    "VerifyJwt windows_plan = AttrValue False" "ImportMapPath windows_plan = AttrNull"
    by (simp_all add: windows_env_def windows_plan_def example_plan_def example_config_def)
  have s: "Separator windows_env = CHR ''/'' \<or> Separator windows_env = CHR 0x5C"
    by (simp add: e)
  have p: "plain_names CHR 0x5C windows_tree"
    by (simp add: windows_tree_def)
  then have p': "plain_names (Separator windows_env)
                   (Lstat windows_env (ValueString (SourceDir windows_plan)))"
    by (simp add: e)
  have t: "distinct_names windows_tree"
    by (simp add: windows_tree_def)
  have f: "map filename windows_body = [None, Some ''index.ts'', Some ''lib/deep/util.ts'']"
    by (simp add: windows_body_def)
  have r: "reachable windows_tree [''lib'', ''deep'', ''util.ts''] ''export {}''"
    unfolding windows_tree_def
    by (rule reachable_entry [of "''lib''" "Dir [(''deep'', Dir [(''util.ts'', File ''export {}'')])]"],
        simp, rule reachable_entry [of "''deep''" "Dir [(''util.ts'', File ''export {}'')]"],
        simp, rule reachable_entry [of "''util.ts''" "File ''export {}''"], simp,
        rule reachable_file)
  have ex: "\<exists>obj files.
         windows_body
           = \<lparr>fieldname = ''metadata'', filename = None, content = EncodedJSON (JObject obj)\<rparr>
             # map (\<lambda>(names, bytes). \<lparr>fieldname = ''file'',
                      filename = Some (escapeQuotes (slash_joined names)),
                      content = RawBytes bytes\<rparr>) files
       \<and> map_of obj ''entrypoint_path'' = Some (JString ''src/index.ts'')
       \<and> map_of obj ''name'' = Some (JString ''hello'')
       \<and> map_of obj ''verify_jwt'' = Some (JBool False)
       \<and> map_of obj ''import_map_path'' = None
       \<and> (\<forall>names bytes. (names, bytes) \<in> set files \<longleftrightarrow> reachable windows_tree names bytes)
       \<and> distinct (map fst files)"
    using deploy_request_body [OF h s p'] t
    apply (simp add: e ToSlash_def)
    apply (elim exE conjE)
    apply (intro exI conjI; assumption)
    done
  from sent sent' p ex f r show ?thesis by blast
qed

text \<open>
  The claim as first stated fails in two places. The file name of a part is not always
  the relative path: for a file with a line feed in its name the writer puts \<^verbatim>\<open>%0A\<close>
  in its place. And the metadata follows the planned values, not the configured ones: a
  configuration that leaves \<^verbatim>\<open>verify_jwt\<close> out is deployed with \<^verbatim>\<open>verify_jwt\<close> in
  the metadata.
\<close>

theorem deploy_file_name_escaped:
  "linefeed_call \<in> set (Calls (Create linefeed_env example_client ([], example_plan)))
   \<and> reachable linefeed_tree [linefeed_name] ''export {}''
   \<and> map filename linefeed_body = [None, Some ''n%0Al.ts'']
   \<and> slash_joined [linefeed_name] \<noteq> ''n%0Al.ts''
   \<and> VerifyJwt example_config = AttrNull
   \<and> Calls (apply_config (Create example_env example_client) example_config)
       = [V1DeployAFunction ''mayuaycdtijbctgqbycg'' \<lparr>params_Slug = Some ''hello-world''\<rparr>
            ''multipart/form-data; boundary=7d4a6d158c9'' default_body]
   \<and> content (hd default_body)
       = EncodedJSON (JObject [(''entrypoint_path'', JString ''index.ts''),
                               (''verify_jwt'', JBool True)])"
proof -
  have a: "linefeed_call \<in> set (Calls (Create linefeed_env example_client ([], example_plan)))"
    using linefeed_deployFunction
    by (cases "deployFunction linefeed_env example_client example_plan")
       (simp add: Create_def HasError_Nil HasError_def)
  have r: "reachable linefeed_tree [linefeed_name] ''export {}''"
    unfolding linefeed_tree_def
    by (rule reachable_entry [of linefeed_name "File ''export {}''"], simp, rule reachable_file)
  have f: "map filename linefeed_body = [None, Some ''n%0Al.ts'']"
    by (simp add: linefeed_body_def)
  have n: "slash_joined [linefeed_name] \<noteq> ''n%0Al.ts''"
    by (simp add: linefeed_name_def)
  have v: "VerifyJwt example_config = AttrNull"
    by (simp add: example_config_def)
  have c: "Calls (apply_config (Create example_env example_client) example_config)
       = [V1DeployAFunction ''mayuaycdtijbctgqbycg'' \<lparr>params_Slug = Some ''hello-world''\<rparr>
            ''multipart/form-data; boundary=7d4a6d158c9'' default_body]"
    by (simp add: example_apply_config default_body_def)
  have m: "content (hd default_body)
       = EncodedJSON (JObject [(''entrypoint_path'', JString ''index.ts''),
                               (''verify_jwt'', JBool True)])"
    by (simp add: default_body_def)
  from a r f n v c m show ?thesis by blast
qed

text \<open>
  Claim C2. When the API answers Read or Delete of the resource with status 404,
  \<^verbatim>\<open>readFunction\<close> and \<^verbatim>\<open>deleteFunction\<close> return no diagnostic and the handler's
  response has no error diagnostic.
\<close>

theorem not_found_is_not_an_error:
  assumes "\<not> HasError diags"
  shows "(\<forall>r. V1GetAFunctionWithResponse client (ValueString (ProjectRef data)) (ValueString (Slug data)) = Inr r
              \<and> StatusCode r = 404
            \<longrightarrow> fst (readFunction client data) = []
              \<and> \<not> HasError (Diagnostics (Read client (diags, data))))
       \<and> (\<forall>r. V1DeleteAFunctionWithResponse client (ValueString (ProjectRef data)) (ValueString (Slug data)) = Inr r
              \<and> StatusCode r = 404
            \<longrightarrow> fst (deleteFunction client data) = []
              \<and> \<not> HasError (Diagnostics (Delete client (diags, data))))"
  using assms
  by (auto simp: Read_def Delete_def readFunction_404 deleteFunction_404 HasError_append HasError_Nil)

theorem not_found_is_not_an_error_witness:
  "V1GetAFunctionWithResponse example_client ''mayuaycdtijbctgqbycg'' ''hello-world''
     = Inr \<lparr>StatusCode = 404, Body = ''Function not found'', JSON200 = None\<rparr>
   \<and> V1DeleteAFunctionWithResponse example_client ''mayuaycdtijbctgqbycg'' ''hello-world''
     = Inr \<lparr>StatusCode = 404, Body = ''Function not found''\<rparr>
   \<and> fst (readFunction example_client example_state) = []
   \<and> \<not> HasError (Diagnostics (Read example_client ([], example_state)))
   \<and> fst (deleteFunction example_client example_state) = []
   \<and> \<not> HasError (Diagnostics (Delete example_client ([], example_state)))"
proof -
  have g: "V1GetAFunctionWithResponse example_client (ValueString (ProjectRef example_state))
             (ValueString (Slug example_state))
           = Inr \<lparr>StatusCode = 404, Body = ''Function not found'', JSON200 = None\<rparr>"
    and d: "V1DeleteAFunctionWithResponse example_client (ValueString (ProjectRef example_state))
             (ValueString (Slug example_state))
           = Inr \<lparr>StatusCode = 404, Body = ''Function not found''\<rparr>"
    by (simp_all add: example_client_def)
  from not_found_is_not_an_error [OF HasError_Nil, of example_client example_state] g d
  show ?thesis
    by (simp add: example_client_def)
qed

text \<open>
  Claim C3. Update does what Create does: on the same plan, with the same client and
  surroundings, the two handlers give the same diagnostics, write the same state and issue
  the same requests.
\<close>

theorem update_same_as_create: "Update env client plan = Create env client plan"
  unfolding Update_def Create_def by (rule refl)

text \<open>
  Claim C4, as amended. A read of the function body data source whose configuration
  decodes without an error diagnostic issues exactly one request, the GET of the body;
  when the response has status 200 the model written to the state has the response's
  bytes as \<^verbatim>\<open>body\<close> and \<^verbatim>\<open>project_ref\<close> and \<^verbatim>\<open>slug\<close> as configured.
\<close>

theorem data_source_read_body:
  assumes "\<not> HasError diags"
  shows "Calls (DataSourceRead client (diags, data))
           = [V1GetAFunctionBody (ValueString (ds_ProjectRef data)) (ValueString (ds_Slug data))]
       \<and> (\<forall>r. V1GetAFunctionBodyWithResponse client (ValueString (ds_ProjectRef data))
                 (ValueString (ds_Slug data)) = Inr r
              \<and> StatusCode r = 200
            \<longrightarrow> (\<exists>st. State (DataSourceRead client (diags, data)) = Some st
                   \<and> ds_Body st = AttrValue (Body r)
                   \<and> ds_ProjectRef st = ds_ProjectRef data
                   \<and> ds_Slug st = ds_Slug data))"
  using assms by (auto simp: DataSourceRead_def Let_def split: sum.splits)

theorem data_source_read_body_witness:
  "Calls (DataSourceRead example_client ([], example_data_source))
     = [V1GetAFunctionBody ''mayuaycdtijbctgqbycg'' ''hello-world'']
   \<and> (\<exists>st. State (DataSourceRead example_client ([], example_data_source)) = Some st
         \<and> ds_Body st = AttrValue ''Deno.serve()''
         \<and> ds_ProjectRef st = AttrValue ''mayuaycdtijbctgqbycg''
         \<and> ds_Slug st = AttrValue ''hello-world'')"
proof -
  have g: "V1GetAFunctionBodyWithResponse example_client (ValueString (ds_ProjectRef example_data_source))
             (ValueString (ds_Slug example_data_source))
           = Inr \<lparr>StatusCode = 200, Body = ''Deno.serve()''\<rparr>"
    by (simp add: example_client_def)
  from data_source_read_body [OF HasError_Nil, of example_client example_data_source] g
  show ?thesis
    by (simp add: example_data_source_def)
qed

text \<open>
  The claim as first stated, one GET for every read, fails where decoding the
  configuration reports an error: the handler returns before the client is called.
\<close>

theorem data_source_read_no_call:
  "HasError failed_decode
   \<and> Calls (DataSourceRead example_client (failed_decode, example_data_source)) = []"
proof -
  have f: "HasError failed_decode"
    by (simp add: failed_decode_def HasError_def)
  then show ?thesis
    by (simp add: DataSourceRead_def)
qed

text \<open>
  Claim C5. When the deploy response carries a parsed 201 body, the state written by
  Create and by Update has \<^verbatim>\<open>id\<close>, \<^verbatim>\<open>slug\<close>, \<^verbatim>\<open>name\<close>, \<^verbatim>\<open>status\<close> and \<^verbatim>\<open>version\<close>
  of the response in place of the planned values; \<^verbatim>\<open>created_at\<close> and \<^verbatim>\<open>updated_at\<close> are
  those of the response when it carries them and the planned ones otherwise; the other
  attributes are the planned ones.
\<close>

theorem deploy_state_from_response:
  assumes "\<not> HasError diags"
    and "build_body env data = Inr buf"
    and "V1DeployAFunctionWithBodyWithResponse client (ValueString (ProjectRef data))
           \<lparr>params_Slug = ValueStringPointer (Slug data)\<rparr> (FormDataContentType (Boundary env)) buf
         = Inr httpResp"
    and "JSON201 httpResp = Some result"
  shows "\<exists>st. State (Create env client (diags, data)) = Some st
           \<and> State (Update env client (diags, data)) = Some st
           \<and> Id st = AttrValue (dr_Id result)
           \<and> Slug st = AttrValue (dr_Slug result)
           \<and> Name st = AttrValue (dr_Name result)
           \<and> Status st = AttrValue (dr_Status result)
           \<and> Version st = AttrValue (dr_Version result)
           \<and> CreatedAt st = (case dr_CreatedAt result of None \<Rightarrow> CreatedAt data | Some t \<Rightarrow> AttrValue t)
           \<and> UpdatedAt st = (case dr_UpdatedAt result of None \<Rightarrow> UpdatedAt data | Some t \<Rightarrow> AttrValue t)
           \<and> ProjectRef st = ProjectRef data \<and> EntrypointPath st = EntrypointPath data
           \<and> SourceDir st = SourceDir data \<and> VerifyJwt st = VerifyJwt data
           \<and> ImportMapPath st = ImportMapPath data"
  using assms(1) deployFunction_success [OF assms(2-4)]
  by (simp add: Create_def Update_def HasError_append HasError_Nil)

theorem deploy_state_from_response_witness:
  "\<exists>st. State (Create example_env example_client ([], example_plan)) = Some st
      \<and> State (Update example_env example_client ([], example_plan)) = Some st
      \<and> Id st = AttrValue ''func-uuid-1234''
      \<and> Slug st = AttrValue ''hello-world''
      \<and> Name st = AttrValue ''hello-world''
      \<and> Status st = AttrValue ''ACTIVE''
      \<and> Version st = AttrValue 1
      \<and> CreatedAt st = AttrValue 1704067200
      \<and> UpdatedAt st = AttrUnknown
      \<and> VerifyJwt st = AttrValue False"
proof -
  have c: "V1DeployAFunctionWithBodyWithResponse example_client (ValueString (ProjectRef example_plan))
             \<lparr>params_Slug = ValueStringPointer (Slug example_plan)\<rparr>
             (FormDataContentType (Boundary example_env)) example_body
           = Inr \<lparr>StatusCode = 201, Body = ''{}'', JSON201 = Some example_deployed\<rparr>"
    by (simp add: example_client_def)
  have j: "JSON201 \<lparr>StatusCode = 201, Body = ''{}'', JSON201 = Some example_deployed\<rparr>
           = Some example_deployed"
    by simp
  have d: "dr_Id example_deployed = ''func-uuid-1234''" "dr_Slug example_deployed = ''hello-world''"
    "dr_Name example_deployed = ''hello-world''" "dr_Status example_deployed = ''ACTIVE''"
    "dr_Version example_deployed = 1" "dr_CreatedAt example_deployed = Some 1704067200"
    "dr_UpdatedAt example_deployed = None"
    by (simp_all add: example_deployed_def)
  have p: "UpdatedAt example_plan = AttrUnknown" "VerifyJwt example_plan = AttrValue False"
    by (simp_all add: example_plan_def example_config_def)
  from deploy_state_from_response [OF HasError_Nil example_build_body c j]
  show ?thesis
    apply (simp only: d p option.case)
    apply (elim exE conjE)
    apply (intro exI conjI; assumption)
    done
qed

text \<open>
  Claim C6, as amended. \<^verbatim>\<open>deployFunction\<close> returns an error diagnostic exactly when the
  walk of the source directory fails, the transport call errs, or the response has no
  parsed 201 body. The read of the data source ends with an error diagnostic exactly when
  decoding the configuration reported one, the transport call errs, or the status is not
  200. Whenever Create, Update or the data source read ends with an error diagnostic, it
  has written no state.
\<close>

theorem error_diagnostics_exactly:
  "(HasError (fst (deployFunction env client data)) \<longleftrightarrow>
      (case build_body env data of
         Inl err \<Rightarrow> True
       | Inr buf \<Rightarrow>
           (case V1DeployAFunctionWithBodyWithResponse client (ValueString (ProjectRef data))
                   \<lparr>params_Slug = ValueStringPointer (Slug data)\<rparr>
                   (FormDataContentType (Boundary env)) buf of
              Inl err \<Rightarrow> True
            | Inr httpResp \<Rightarrow> JSON201 httpResp = None)))
   \<and> (HasError (Diagnostics (DataSourceRead client (diags, cfg))) \<longleftrightarrow>
        HasError diags \<or>
        (case V1GetAFunctionBodyWithResponse client (ValueString (ds_ProjectRef cfg))
                (ValueString (ds_Slug cfg)) of
           Inl err \<Rightarrow> True
         | Inr httpResp \<Rightarrow> StatusCode httpResp \<noteq> 200))
   \<and> (HasError (fst (deployFunction env client data))
        \<longrightarrow> State (Create env client (ds, data)) = None \<and> State (Update env client (ds, data)) = None)
   \<and> (HasError (Diagnostics (Create env client plan)) \<longrightarrow> State (Create env client plan) = None)
   \<and> (HasError (Diagnostics (Update env client plan)) \<longrightarrow> State (Update env client plan) = None)
   \<and> (HasError (Diagnostics (DataSourceRead client (diags, cfg)))
        \<longrightarrow> State (DataSourceRead client (diags, cfg)) = None)"
proof -
  have a: "HasError (fst (deployFunction env client data)) \<longleftrightarrow>
      (case build_body env data of
         Inl err \<Rightarrow> True
       | Inr buf \<Rightarrow>
           (case V1DeployAFunctionWithBodyWithResponse client (ValueString (ProjectRef data))
                   \<lparr>params_Slug = ValueStringPointer (Slug data)\<rparr>
                   (FormDataContentType (Boundary env)) buf of
              Inl err \<Rightarrow> True
            | Inr httpResp \<Rightarrow> JSON201 httpResp = None))"
    by (simp add: deployFunction_def Let_def HasError_client_error HasError_Nil
          split: sum.splits option.splits)
  have b: "HasError (Diagnostics (DataSourceRead client (diags, cfg))) \<longleftrightarrow>
        HasError diags \<or>
        (case V1GetAFunctionBodyWithResponse client (ValueString (ds_ProjectRef cfg))
                (ValueString (ds_Slug cfg)) of
           Inl err \<Rightarrow> True
         | Inr httpResp \<Rightarrow> StatusCode httpResp \<noteq> 200)"
    by (simp add: DataSourceRead_def Let_def HasError_client_error HasError_append
          split: sum.splits)
  have c: "HasError (Diagnostics (Create env client plan)) \<longrightarrow> State (Create env client plan) = None"
    by (cases plan) (auto simp: Create_def split: prod.splits)
  have d: "HasError (Diagnostics (Update env client plan)) \<longrightarrow> State (Update env client plan) = None"
    by (cases plan) (auto simp: Update_def split: prod.splits)
  have e: "HasError (Diagnostics (DataSourceRead client (diags, cfg)))
        \<longrightarrow> State (DataSourceRead client (diags, cfg)) = None"
    by (simp add: DataSourceRead_def Let_def HasError_client_error HasError_append
          split: sum.splits)
  have f: "HasError (fst (deployFunction env client data))
        \<longrightarrow> State (Create env client (ds, data)) = None \<and> State (Update env client (ds, data)) = None"
    by (auto simp: Create_def Update_def HasError_append split: prod.splits)
  from a b c d e f show ?thesis by blast
qed

theorem error_diagnostics_exactly_witness:
  "build_body missing_env example_plan = Inl ''lstat: no such file or directory''
   \<and> HasError (fst (deployFunction missing_env example_client example_plan))
   \<and> HasError (Diagnostics (Create missing_env example_client ([], example_plan)))
   \<and> State (Create missing_env example_client ([], example_plan)) = None
   \<and> HasError (Diagnostics (Update missing_env example_client ([], example_plan)))
   \<and> State (Update missing_env example_client ([], example_plan)) = None
   \<and> HasError (Diagnostics (DataSourceRead example_client (failed_decode, example_data_source)))
   \<and> State (DataSourceRead example_client (failed_decode, example_data_source)) = None"
proof -
  have b: "build_body missing_env example_plan = Inl ''lstat: no such file or directory''"
    by (simp add: build_body_def Walk_def missing_env_def example_env_def example_plan_def
          example_config_def)
  have c: "HasError (Diagnostics (Create missing_env example_client ([], example_plan)))"
    by (simp add: Create_def HasError_Nil missing_deployFunction HasError_client_error)
  have u: "HasError (Diagnostics (Update missing_env example_client ([], example_plan)))"
    by (simp add: Update_def HasError_Nil missing_deployFunction HasError_client_error)
  have f: "HasError failed_decode"
    by (simp add: failed_decode_def HasError_def)
  from error_diagnostics_exactly [of missing_env example_client example_plan failed_decode
      example_data_source "[]" "([], example_plan)"] b c u f
  show ?thesis by simp
qed

text \<open>
  The claim as first stated fails where the source directory cannot be walked:
  \<^verbatim>\<open>deployFunction\<close> returns an error diagnostic although it has called no transport,
  so no call erred and no response lacked a body. It fails likewise for the data source
  where decoding the configuration reports an error.
\<close>

theorem error_without_transport:
  "HasError (fst (deployFunction missing_env example_client example_plan))
   \<and> snd (snd (deployFunction missing_env example_client example_plan)) = []
   \<and> HasError (Diagnostics (DataSourceRead example_client (failed_decode, example_data_source)))
   \<and> Calls (DataSourceRead example_client (failed_decode, example_data_source)) = []"
proof -
  have a: "HasError (fst (deployFunction missing_env example_client example_plan))"
    and b: "snd (snd (deployFunction missing_env example_client example_plan)) = []"
    by (simp_all add: missing_deployFunction HasError_client_error)
  have f: "HasError failed_decode"
    by (simp add: failed_decode_def HasError_def)
  then have d: "Diagnostics (DataSourceRead example_client (failed_decode, example_data_source))
                  = failed_decode"
    and c: "Calls (DataSourceRead example_client (failed_decode, example_data_source)) = []"
    by (simp_all add: DataSourceRead_def)
  from a b c d f show ?thesis by simp
qed

text \<open>
  Claim C7. No handler issues a second request: Create and Update issue no request or one
  deploy request, Read issues no request or one get request, Delete no request or one
  delete request, and the data source read no request or one body request, whatever the
  client answers.
\<close>

theorem at_most_one_request:
  "(Calls (Create env client plan) = []
      \<or> (\<exists>project params ctype body.
            Calls (Create env client plan) = [V1DeployAFunction project params ctype body]))
   \<and> (Calls (Update env client plan) = []
      \<or> (\<exists>project params ctype body.
            Calls (Update env client plan) = [V1DeployAFunction project params ctype body]))
   \<and> (Calls (Read client state) = []
      \<or> (\<exists>project slug. Calls (Read client state) = [V1GetAFunction project slug]))
   \<and> (Calls (Delete client state) = []
      \<or> (\<exists>project slug. Calls (Delete client state) = [V1DeleteAFunction project slug]))
   \<and> (Calls (DataSourceRead client config) = []
      \<or> (\<exists>project slug. Calls (DataSourceRead client config) = [V1GetAFunctionBody project slug]))"
proof -
  have c: "Calls (Create env client plan) = []
      \<or> (\<exists>project params ctype body.
            Calls (Create env client plan) = [V1DeployAFunction project params ctype body])"
    using deployFunction_calls [of env client "snd plan"]
    by (cases plan) (auto simp: Create_def split: prod.splits)
  have u: "Calls (Update env client plan) = []
      \<or> (\<exists>project params ctype body.
            Calls (Update env client plan) = [V1DeployAFunction project params ctype body])"
    using deployFunction_calls [of env client "snd plan"]
    by (cases plan) (auto simp: Update_def split: prod.splits)
  have r: "Calls (Read client state) = []
      \<or> (\<exists>project slug. Calls (Read client state) = [V1GetAFunction project slug])"
    using readFunction_calls [of client "snd state"]
    by (cases state) (auto simp: Read_def split: prod.splits)
  have d: "Calls (Delete client state) = []
      \<or> (\<exists>project slug. Calls (Delete client state) = [V1DeleteAFunction project slug])"
    using deleteFunction_calls [of client "snd state"]
    by (cases state) (auto simp: Delete_def split: prod.splits)
  have b: "Calls (DataSourceRead client config) = []
      \<or> (\<exists>project slug. Calls (DataSourceRead client config) = [V1GetAFunctionBody project slug])"
    by (cases config) (simp add: DataSourceRead_def Let_def split: sum.splits)
  from c u r d b show ?thesis by blast
qed

text \<open>
  Claim C8. When the API answers the Read of the resource with status 404, the handler
  writes the prior state back as it was: the state is set, to the model read from the
  request, with every attribute unchanged.
\<close>

theorem read_not_found_keeps_state:
  assumes "\<not> HasError diags"
    and "V1GetAFunctionWithResponse client (ValueString (ProjectRef data)) (ValueString (Slug data)) = Inr r"
    and "StatusCode r = 404"
  shows "State (Read client (diags, data)) = Some data"
  using assms(1) readFunction_404 [OF assms(2,3)]
  by (simp add: Read_def HasError_append HasError_Nil)

theorem read_not_found_keeps_state_witness:
  "State (Read example_client ([], example_state)) = Some example_state"
proof -
  have g: "V1GetAFunctionWithResponse example_client (ValueString (ProjectRef example_state))
             (ValueString (Slug example_state))
           = Inr \<lparr>StatusCode = 404, Body = ''Function not found'', JSON200 = None\<rparr>"
    by (simp add: example_client_def)
  have s: "StatusCode \<lparr>StatusCode = 404, Body = ''Function not found'', JSON200 = None\<rparr> = 404"
    by simp
  from read_not_found_keeps_state [OF HasError_Nil g s] show ?thesis .
qed

text \<open>
  Claim C9. A configuration that omits \<^verbatim>\<open>verify_jwt\<close> is planned with
  \<^verbatim>\<open>verify_jwt\<close> true, and every deploy request that Create or Update issues for it
  carries \<^verbatim>\<open>verify_jwt\<close> true in the JSON object of its metadata field.
\<close>

theorem verify_jwt_default_true:
  assumes "VerifyJwt config = AttrNull"
  shows "VerifyJwt (PlanDefaults config) = AttrValue True
       \<and> (\<forall>project params ctype body.
             V1DeployAFunction project params ctype body
               \<in> set (Calls (apply_config (Create env client) config))
             \<or> V1DeployAFunction project params ctype body
               \<in> set (Calls (apply_config (Update env client) config))
             \<longrightarrow> (\<exists>obj files. body = \<lparr>fieldname = ''metadata'', filename = None,
                                        content = EncodedJSON (JObject obj)\<rparr> # files
                    \<and> map_of obj ''verify_jwt'' = Some (JBool True)))"
proof (intro conjI allI impI)
  show p: "VerifyJwt (PlanDefaults config) = AttrValue True"
    using assms by (simp add: PlanDefaults_def verify_jwt_Default_def)
  fix project params ctype body
  assume "V1DeployAFunction project params ctype body
            \<in> set (Calls (apply_config (Create env client) config))
          \<or> V1DeployAFunction project params ctype body
            \<in> set (Calls (apply_config (Update env client) config))"
  from apply_config_calls [OF this]
  have c: "V1DeployAFunction project params ctype body
              \<in> set (snd (snd (deployFunction env client (PlanDefaults config))))"
    by simp
  from build_body_parts [OF deploy_call_body [OF c]]
    metadata_object_lookup(3) [of "Separator env" "PlanDefaults config"] p
  show "\<exists>obj files. body = \<lparr>fieldname = ''metadata'', filename = None,
                                        content = EncodedJSON (JObject obj)\<rparr> # files
                    \<and> map_of obj ''verify_jwt'' = Some (JBool True)"
    by simp
qed

theorem verify_jwt_default_true_witness:
  "VerifyJwt example_config = AttrNull
   \<and> VerifyJwt (PlanDefaults example_config) = AttrValue True
   \<and> (\<exists>project params ctype body obj files.
         Calls (apply_config (Create example_env example_client) example_config)
           = [V1DeployAFunction project params ctype body]
       \<and> body = \<lparr>fieldname = ''metadata'', filename = None,
                   content = EncodedJSON (JObject obj)\<rparr> # files
       \<and> map_of obj ''verify_jwt'' = Some (JBool True))"
proof -
  have n: "VerifyJwt example_config = AttrNull"
    by (simp add: example_config_def)
  let ?body = "[\<lparr>fieldname = ''metadata'', filename = None,
          content = EncodedJSON (JObject [(''entrypoint_path'', JString ''index.ts''),
                                          (''verify_jwt'', JBool True)])\<rparr>,
         \<lparr>fieldname = ''file'', filename = Some ''index.ts'', content = RawBytes ''Deno.serve()''\<rparr>,
         \<lparr>fieldname = ''file'', filename = Some ''lib/util.ts'', content = RawBytes ''export {}''\<rparr>]"
  let ?call = "V1DeployAFunction ''mayuaycdtijbctgqbycg'' \<lparr>params_Slug = Some ''hello-world''\<rparr>
        ''multipart/form-data; boundary=7d4a6d158c9'' ?body"
  have m: "?call \<in> set (Calls (apply_config (Create example_env example_client) example_config))
           \<or> ?call \<in> set (Calls (apply_config (Update example_env example_client) example_config))"
    by (simp add: example_apply_config)
  from verify_jwt_default_true [OF n, of example_env example_client] m
  obtain obj files where o: "?body = \<lparr>fieldname = ''metadata'', filename = None,
                                        content = EncodedJSON (JObject obj)\<rparr> # files"
    and v: "map_of obj ''verify_jwt'' = Some (JBool True)"
    by blast
  from verify_jwt_default_true [OF n, of example_env example_client]
  have p: "VerifyJwt (PlanDefaults example_config) = AttrValue True"
    by simp
  from n p o v example_apply_config show ?thesis
    by blast
qed

text \<open>
  Claim C10. A configuration whose slug is a string that does not match
  \<^verbatim>\<open>^[A-Za-z][A-Za-z0-9_-]*$\<close> is rejected by the validation of the schema, with an
  error diagnostic and before any request is issued; so the slug parameter of every deploy
  request issued for a configuration matches the pattern.
\<close>

theorem slug_checked_before_deploy:
  assumes "Slug config = AttrValue s"
  shows "(\<not> slug_regexp s \<longrightarrow>
            HasError (Diagnostics (apply_config (Create env client) config))
          \<and> Calls (apply_config (Create env client) config) = []
          \<and> HasError (Diagnostics (apply_config (Update env client) config))
          \<and> Calls (apply_config (Update env client) config) = [])
       \<and> (\<forall>project params ctype body.
             V1DeployAFunction project params ctype body
               \<in> set (Calls (apply_config (Create env client) config))
             \<or> V1DeployAFunction project params ctype body
               \<in> set (Calls (apply_config (Update env client) config))
             \<longrightarrow> (\<exists>s'. params_Slug params = Some s' \<and> slug_regexp s'))"
proof (intro conjI allI impI)
  fix project params ctype body
  assume "V1DeployAFunction project params ctype body
            \<in> set (Calls (apply_config (Create env client) config))
          \<or> V1DeployAFunction project params ctype body
            \<in> set (Calls (apply_config (Update env client) config))"
  from apply_config_calls [OF this] have v: "\<not> HasError (ValidateConfig config)"
    and c: "V1DeployAFunction project params ctype body
              \<in> set (snd (snd (deployFunction env client (PlanDefaults config))))"
    by simp_all
  from v assms have "slug_regexp s" by (simp add: ValidateConfig_slug)
  moreover from deploy_call_params [OF c] assms have "params_Slug params = Some s"
    by (simp add: PlanDefaults_def)
  ultimately show "\<exists>s'. params_Slug params = Some s' \<and> slug_regexp s'" by simp
qed (simp_all add: apply_config_def Let_def ValidateConfig_slug [OF assms])

theorem slug_checked_before_deploy_witness:
  "\<not> slug_regexp ''1-hello world''
   \<and> HasError (Diagnostics (apply_config (Create example_env example_client) bad_slug_config))
   \<and> Calls (apply_config (Create example_env example_client) bad_slug_config) = []
   \<and> HasError (Diagnostics (apply_config (Update example_env example_client) bad_slug_config))
   \<and> Calls (apply_config (Update example_env example_client) bad_slug_config) = []
   \<and> (\<exists>project params ctype body.
         Calls (apply_config (Create example_env example_client) example_config)
           = [V1DeployAFunction project params ctype body]
       \<and> params_Slug params = Some ''hello-world'')
   \<and> slug_regexp ''hello-world''"
proof -
  have b: "Slug bad_slug_config = AttrValue ''1-hello world''"
    by (simp add: bad_slug_config_def)
  have nb: "\<not> slug_regexp ''1-hello world''"
    by (simp add: slug_first_def in_range_def)
  have g: "Slug example_config = AttrValue ''hello-world''"
    by (simp add: example_config_def)
  let ?body = "[\<lparr>fieldname = ''metadata'', filename = None,
          content = EncodedJSON (JObject [(''entrypoint_path'', JString ''index.ts''),
                                          (''verify_jwt'', JBool True)])\<rparr>,
         \<lparr>fieldname = ''file'', filename = Some ''index.ts'', content = RawBytes ''Deno.serve()''\<rparr>,
         \<lparr>fieldname = ''file'', filename = Some ''lib/util.ts'', content = RawBytes ''export {}''\<rparr>]"
  let ?call = "V1DeployAFunction ''mayuaycdtijbctgqbycg'' \<lparr>params_Slug = Some ''hello-world''\<rparr>
        ''multipart/form-data; boundary=7d4a6d158c9'' ?body"
  have m: "?call \<in> set (Calls (apply_config (Create example_env example_client) example_config))
           \<or> ?call \<in> set (Calls (apply_config (Update example_env example_client) example_config))"
    by (simp add: example_apply_config)
  from slug_checked_before_deploy [OF g, of example_env example_client] m
  have ok: "slug_regexp ''hello-world''"
    by fastforce
  from slug_checked_before_deploy [OF b, of example_env example_client] nb
  have rej: "HasError (Diagnostics (apply_config (Create example_env example_client) bad_slug_config))
      \<and> Calls (apply_config (Create example_env example_client) bad_slug_config) = []
      \<and> HasError (Diagnostics (apply_config (Update example_env example_client) bad_slug_config))
      \<and> Calls (apply_config (Update example_env example_client) bad_slug_config) = []"
    by blast
  have ex: "\<exists>project params ctype body.
         Calls (apply_config (Create example_env example_client) example_config)
           = [V1DeployAFunction project params ctype body]
       \<and> params_Slug params = Some ''hello-world''"
    by (simp add: example_apply_config)
  from nb rej ok ex show ?thesis
    by blast
qed

end
